theory Spec2Isabelle
  imports Complex_Main "HOL-Library.Sublist"
begin

section \<open>The store: tables of \<^verbatim>\<open>backend/db/db.go\<close>\<close>

text \<open>
  \<^verbatim>\<open>createTables\<close> declares seven tables. A table is modelled as the list of its rows in
  the order of their insertion, which is the order in which a \<^verbatim>\<open>SELECT\<close> that walks the whole
  table delivers them. Identifiers are Go \<^verbatim>\<open>int\<close>s bound to \<^verbatim>\<open>INTEGER\<close> columns and are
  modelled as mathematical integers. Columns that the handlers always bind to a Go value
  (never to \<^verbatim>\<open>nil\<close>) are modelled without \<^verbatim>\<open>NULL\<close>; the two owner columns of \<^verbatim>\<open>tracks\<close> and
  \<^verbatim>\<open>musicians.ensemble_id\<close> are nullable and modelled as options. Of \<^verbatim>\<open>users\<close> only the
  primary key is kept: the handlers modelled here use that table only as the target of
  the foreign key of \<^verbatim>\<open>cart_items\<close>.
\<close>

text \<open>
  \<^verbatim>\<open>cart_items.quantity\<close> is the one column the code does arithmetic on, inside the
  statement of \<^verbatim>\<open>AddToCartHandler\<close>. The engine stores a 64-bit integer there; a sum of two
  integers that leaves the 64-bit range is computed in floating point instead and stored
  as a \<^verbatim>\<open>REAL\<close>. Such a sum is at least \<open>2^63\<close>, adding a positive quantity to it keeps it
  there, and which floating-point number it is plays no role in what follows, so \<open>REAL\<close>
  carries no value.
\<close>

datatype sql_value = INTEGER int | REAL

definition MaxInt64 :: int where
  "MaxInt64 = 9223372036854775807"

definition MinInt64 :: int where
  "MinInt64 = - 9223372036854775808"

definition sql_add :: "sql_value \<Rightarrow> int \<Rightarrow> sql_value" where
  \<comment> \<open>\<^verbatim>\<open>quantity + excluded.quantity\<close>\<close>
  "sql_add v b =
     (case v of
        INTEGER a \<Rightarrow> if MinInt64 \<le> a + b \<and> a + b \<le> MaxInt64 then INTEGER (a + b) else REAL
      | REAL \<Rightarrow> REAL)"

record ensemble_row =
  ens_id :: int
  ens_name :: string
  ens_type :: string

record musician_row =
  mus_id :: int
  mus_first_name :: string
  mus_last_name :: string
  mus_role :: string
  mus_ensemble_id :: "int option"

record track_row =
  trk_id :: int
  trk_name :: string
  trk_duration :: int
  trk_musician_id :: "int option"
  trk_ensemble_id :: "int option"

record record_row =
  rec_id :: int
  rec_title :: string
  rec_label :: string
  rec_wholesale_address :: string
  rec_wholesale_price :: real
  rec_retail_price :: real
  rec_release_date :: string
  rec_sold_last_year :: int
  rec_sold_current_year :: int
  rec_stock :: int

record cart_row =
  cart_user_id :: int
  cart_record_id :: int
  cart_quantity :: sql_value

text \<open>
  \<open>foreign_keys\<close> is the setting of that name of the connection
  (\<^verbatim>\<open>PRAGMA foreign_keys\<close>). The engine enforces the \<^verbatim>\<open>FOREIGN KEY\<close> clauses of
  \<^verbatim>\<open>createTables\<close>, and runs their \<^verbatim>\<open>ON DELETE\<close> actions, only while it is on. It is off
  unless the connection turns it on. \<^verbatim>\<open>InitDB\<close> opens the database with the
  \<^verbatim>\<open>DATABASE_URL\<close> of the environment and issues no \<^verbatim>\<open>PRAGMA\<close>, and no other place of the
  code does; so the setting is on only if that URL itself asks for it, and off otherwise.
  The \<^verbatim>\<open>seq_\<close> fields are the \<^verbatim>\<open>AUTOINCREMENT\<close> counters of the four tables whose keys the
  engine assigns: the largest key ever handed out.
\<close>

record db =
  foreign_keys :: bool
  users :: "int list"
  ensembles :: "ensemble_row list"
  musicians :: "musician_row list"
  tracks :: "track_row list"
  records :: "record_row list"
  record_tracks :: "(int \<times> int) list"
  cart_items :: "cart_row list"
  seq_ensembles :: int
  seq_musicians :: int
  seq_tracks :: int
  seq_records :: int

text \<open>
  The database right after \<^verbatim>\<open>createTables\<close> ran on a fresh file whose URL is a plain file
  name.
\<close>

definition createTables :: db where
  "createTables = \<lparr>foreign_keys = False, users = [], ensembles = [], musicians = [], tracks = [], records = [],
     record_tracks = [], cart_items = [],
     seq_ensembles = 0, seq_musicians = 0, seq_tracks = 0, seq_records = 0\<rparr>"

datatype sql_error =
    UNIQUE_constraint_failed
  | FOREIGN_KEY_constraint_failed
  | CHECK_constraint_failed
  | Syntax_error
  | Storage_fault

text \<open>Responses other than 200/201, by the status constant the handler passes to \<^verbatim>\<open>respondWithError\<close>.\<close>

datatype error =
    StatusBadRequest string
  | StatusNotFound string
  | StatusConflict string
  | StatusInternalServerError string

section \<open>Cart statements and handlers\<close>

definition record_exists :: "db \<Rightarrow> int \<Rightarrow> bool" where
  \<comment> \<open>\<^verbatim>\<open>SELECT EXISTS(SELECT 1 FROM records WHERE id = ?)\<close>\<close>
  "record_exists d r = (r \<in> set (map rec_id (records d)))"

definition is_cart_row :: "int \<Rightarrow> int \<Rightarrow> cart_row \<Rightarrow> bool" where
  \<comment> \<open>\<^verbatim>\<open>WHERE user_id = ? AND record_id = ?\<close>\<close>
  "is_cart_row u r c = (cart_user_id c = u \<and> cart_record_id c = r)"

definition cart_quantity_of :: "db \<Rightarrow> int \<Rightarrow> int \<Rightarrow> sql_value option" where
  \<comment> \<open>the state of the pair \<open>(u, r)\<close>: \<open>None\<close> is absent, \<open>Some v\<close> is present with the stored
      quantity \<open>v\<close>\<close>
  "cart_quantity_of d u r = map_option cart_quantity (find (is_cart_row u r) (cart_items d))"

definition cart_upsert :: "db \<Rightarrow> int \<Rightarrow> int \<Rightarrow> int \<Rightarrow> sql_error + db" where
  \<comment> \<open>\<^verbatim>\<open>INSERT INTO cart_items (user_id, record_id, quantity) VALUES (?, ?, ?)
      ON CONFLICT (user_id, record_id) DO UPDATE SET quantity = quantity + excluded.quantity\<close>\<close>
  "cart_upsert d u r q =
     (if list_ex (is_cart_row u r) (cart_items d)
      then Inr (d\<lparr>cart_items :=
             map (\<lambda>c. if is_cart_row u r c then c\<lparr>cart_quantity := sql_add (cart_quantity c) q\<rparr>
                      else c)
                 (cart_items d)\<rparr>)
      else if foreign_keys d \<and> (u \<notin> set (users d) \<or> \<not> record_exists d r)
      then Inl FOREIGN_KEY_constraint_failed
      else Inr (d\<lparr>cart_items :=
             cart_items d @ [\<lparr>cart_user_id = u, cart_record_id = r, cart_quantity = INTEGER q\<rparr>]\<rparr>))"

definition cart_delete :: "db \<Rightarrow> int \<Rightarrow> int \<Rightarrow> db \<times> nat" where
  \<comment> \<open>\<^verbatim>\<open>DELETE FROM cart_items WHERE user_id = ? AND record_id = ?\<close>, with \<^verbatim>\<open>RowsAffected\<close>\<close>
  "cart_delete d u r =
     (d\<lparr>cart_items := filter (\<lambda>c. \<not> is_cart_row u r c) (cart_items d)\<rparr>,
      length (filter (is_cart_row u r) (cart_items d)))"

definition cart_update :: "db \<Rightarrow> int \<Rightarrow> int \<Rightarrow> int \<Rightarrow> db \<times> nat" where
  \<comment> \<open>\<^verbatim>\<open>UPDATE cart_items SET quantity = ? WHERE user_id = ? AND record_id = ?\<close>, with \<^verbatim>\<open>RowsAffected\<close>\<close>
  "cart_update d q u r =
     (d\<lparr>cart_items :=
          map (\<lambda>c. if is_cart_row u r c then c\<lparr>cart_quantity := INTEGER q\<rparr> else c)
            (cart_items d)\<rparr>,
      length (filter (is_cart_row u r) (cart_items d)))"

definition select_stock :: "db \<Rightarrow> int \<Rightarrow> int option" where
  \<comment> \<open>\<^verbatim>\<open>SELECT stock FROM records WHERE id = ?\<close>; \<open>None\<close> is \<^verbatim>\<open>sql.ErrNoRows\<close>\<close>
  "select_stock d r = map_option rec_stock (find (\<lambda>x. rec_id x = r) (records d))"

text \<open>
  A handler takes the store, the authenticated user id and the decoded request, and
  returns the response together with the store it leaves behind. The numbers of a decoded
  request are Go \<^verbatim>\<open>int\<close>s: a request whose number does not fit into 64 bits is answered
  by the decoder and never reaches the code modelled here.
\<close>

definition AddToCartHandler :: "db \<Rightarrow> int \<Rightarrow> int \<Rightarrow> int \<Rightarrow> (error + string) \<times> db" where
  "AddToCartHandler d userID RecordID Quantity =
     (if RecordID \<le> 0 \<or> Quantity \<le> 0
      then (Inl (StatusBadRequest ''Valid record ID and quantity (>= 1) are required''), d)
      else if \<not> record_exists d RecordID then (Inl (StatusNotFound ''Record not found''), d)
      else case cart_upsert d userID RecordID Quantity of
             Inl e \<Rightarrow> (Inl (StatusInternalServerError ''Failed to add item to cart''), d)
           | Inr d' \<Rightarrow> (Inr ''Item added to cart'', d'))"

definition UpdateCartHandler :: "db \<Rightarrow> int \<Rightarrow> int \<Rightarrow> int \<Rightarrow> (error + string) \<times> db" where
  "UpdateCartHandler d userID recordID Quantity =
     (if recordID \<le> 0 then (Inl (StatusBadRequest ''Invalid record ID in URL''), d)
      else if Quantity < 0 then (Inl (StatusBadRequest ''Quantity cannot be negative''), d)
      else if Quantity = 0 then
        (case cart_delete d userID recordID of (d', rowsAffected) \<Rightarrow>
           if rowsAffected = 0 then (Inl (StatusNotFound ''Item not found in cart''), d')
           else (Inr ''Item removed from cart'', d'))
      else
        (case select_stock d recordID of
           None \<Rightarrow> (Inl (StatusNotFound ''Record not found''), d)
         | Some stock \<Rightarrow>
             (case cart_update d Quantity userID recordID of (d', rowsAffected) \<Rightarrow>
                if rowsAffected = 0 then (Inl (StatusNotFound ''Item not found in cart''), d')
                else (Inr ''Cart item quantity updated'', d'))))"

definition RemoveFromCartHandler :: "db \<Rightarrow> int \<Rightarrow> int \<Rightarrow> (error + string) \<times> db" where
  "RemoveFromCartHandler d userID recordID =
     (if recordID \<le> 0 then (Inl (StatusBadRequest ''Invalid record ID in URL''), d)
      else case cart_delete d userID recordID of (d', rowsAffected) \<Rightarrow>
             if rowsAffected = 0 then (Inl (StatusNotFound ''Item not found in cart''), d')
             else (Inr ''Item removed from cart'', d'))"

section \<open>Statement texts and what the engine makes of them\<close>

text \<open>
  The handlers build the texts of their \<^verbatim>\<open>IN\<close> queries at run time. The engine is not part
  of the repository; of its parser the model keeps the one rule these texts depend on: the
  statement has to end in a parenthesised, comma-separated list of \<^verbatim>\<open>?\<close> markers, one for
  each bound argument. A text that does not is refused with an error and yields no rows.
\<close>

definition Repeat :: "string \<Rightarrow> nat \<Rightarrow> string" where
  \<comment> \<open>\<^verbatim>\<open>strings.Repeat\<close>; every call site has a non-empty id list, so the count \<open>len - 1\<close> is never negative\<close>
  "Repeat s count = concat (replicate count s)"

definition bind_markers :: "nat \<Rightarrow> string" where
  "bind_markers n = ''(?'' @ Repeat '',?'' (n - 1) @ '')''"

definition IN_list_ok :: "string \<Rightarrow> int list \<Rightarrow> bool" where
  "IN_list_ok query args = (args \<noteq> [] \<and> suffix (bind_markers (length args)) query)"

definition record_tracks_query :: "int list \<Rightarrow> string" where
  \<comment> \<open>lines 383 and 668, an interpreted string literal concatenated with \<^verbatim>\<open>strings.Repeat\<close>\<close>
  "record_tracks_query recordIDs =
     ''SELECT record_id, track_id FROM record_tracks WHERE record_id IN (?''
       @ Repeat '',?'' (length recordIDs - 1) @ '')''"

definition records_query :: "int list \<Rightarrow> string" where
  \<comment> \<open>line 622\<close>
  "records_query recordIDs =
     ''SELECT id, title, label, wholesale_address, wholesale_price, retail_price, release_date, sold_last_year, sold_current_year, stock FROM records WHERE id IN (?''
       @ Repeat '',?'' (length recordIDs - 1) @ '')''"

definition tracks_query :: "int list \<Rightarrow> string" where
  \<comment> \<open>lines 428-435: one raw (backquoted) string literal, so the text from the first quote
      to the last parenthesis is part of the statement and \<open>trackIDs\<close> is not used\<close>
  \<open>tracks_query trackIDs =
     ''\<newline>        SELECT\<newline>            t.id, t.name, t.duration, t.musician_id, t.ensemble_id,\<newline>            m.first_name, m.last_name, e.name\<newline>        FROM tracks t\<newline>        LEFT JOIN musicians m ON t.musician_id = m.id\<newline>        LEFT JOIN ensembles e ON t.ensemble_id = e.id\<newline>        WHERE t.id IN (?" + strings.Repeat(",?", len(trackIDs)-1) + ")''\<close>

definition cart_tracks_query :: "int list \<Rightarrow> string" where
  \<comment> \<open>lines 707-714: the same raw string literal, indented one level deeper\<close>
  \<open>cart_tracks_query cartTrackIDs =
     ''\<newline>            SELECT\<newline>                t.id, t.name, t.duration, t.musician_id, t.ensemble_id,\<newline>                m.first_name, m.last_name, e.name\<newline>            FROM tracks t\<newline>            LEFT JOIN musicians m ON t.musician_id = m.id\<newline>            LEFT JOIN ensembles e ON t.ensemble_id = e.id\<newline>            WHERE t.id IN (?" + strings.Repeat(",?", len(cartTrackIDs)-1) + ")''\<close>

definition select_record_tracks :: "db \<Rightarrow> string \<Rightarrow> int list \<Rightarrow> sql_error + (int \<times> int) list" where
  "select_record_tracks d query args =
     (if IN_list_ok query args
      then Inr (filter (\<lambda>(record_id, track_id). record_id \<in> set args) (record_tracks d))
      else Inl Syntax_error)"

definition select_records_in :: "db \<Rightarrow> string \<Rightarrow> int list \<Rightarrow> sql_error + record_row list" where
  "select_records_in d query args =
     (if IN_list_ok query args
      then Inr (filter (\<lambda>x. rec_id x \<in> set args) (records d))
      else Inl Syntax_error)"

text \<open>A row of \<^verbatim>\<open>tracks t LEFT JOIN musicians m LEFT JOIN ensembles e\<close>: the joined columns are \<^verbatim>\<open>NULL\<close> when no owner row matches.\<close>

record track_join_row =
  j_id :: int
  j_name :: string
  j_duration :: int
  j_musician_id :: "int option"
  j_ensemble_id :: "int option"
  j_first_name :: "string option"
  j_last_name :: "string option"
  j_ensemble_name :: "string option"

definition left_join :: "db \<Rightarrow> track_row \<Rightarrow> track_join_row" where
  "left_join d t =
     (let m = (case trk_musician_id t of None \<Rightarrow> None
               | Some i \<Rightarrow> find (\<lambda>x. mus_id x = i) (musicians d));
          e = (case trk_ensemble_id t of None \<Rightarrow> None
               | Some i \<Rightarrow> find (\<lambda>x. ens_id x = i) (ensembles d))
      in \<lparr>j_id = trk_id t, j_name = trk_name t, j_duration = trk_duration t,
          j_musician_id = trk_musician_id t, j_ensemble_id = trk_ensemble_id t,
          j_first_name = map_option mus_first_name m, j_last_name = map_option mus_last_name m,
          j_ensemble_name = map_option ens_name e\<rparr>)"

definition select_tracks_joined :: "db \<Rightarrow> string \<Rightarrow> int list \<Rightarrow> sql_error + track_join_row list" where
  "select_tracks_joined d query args =
     (if IN_list_ok query args
      then Inr (map (left_join d) (filter (\<lambda>t. trk_id t \<in> set args) (tracks d)))
      else Inl Syntax_error)"

section \<open>\<^verbatim>\<open>strings.TrimSpace\<close>\<close>

text \<open>
  Go strings are byte sequences holding UTF-8. \<^verbatim>\<open>TrimSpace\<close> removes every leading and
  trailing white-space code point; \<open>space_runes\<close> lists the encodings of the code points
  for which \<^verbatim>\<open>unicode.IsSpace\<close> holds: the six ASCII ones, U+0085, U+00A0, U+1680,
  U+2000 to U+200A, U+2028, U+2029, U+202F, U+205F and U+3000.
\<close>

definition space_runes :: "string list" where
  "space_runes =
     [[CHR 0x09], [CHR 0x0A], [CHR 0x0B], [CHR 0x0C], [CHR 0x0D], [CHR 0x20],
      [CHR 0xC2, CHR 0x85], [CHR 0xC2, CHR 0xA0], [CHR 0xE1, CHR 0x9A, CHR 0x80]]
     @ map (\<lambda>c. [CHR 0xE2, CHR 0x80, c])
         [CHR 0x80, CHR 0x81, CHR 0x82, CHR 0x83, CHR 0x84, CHR 0x85, CHR 0x86, CHR 0x87,
          CHR 0x88, CHR 0x89, CHR 0x8A, CHR 0xA8, CHR 0xA9, CHR 0xAF]
     @ [[CHR 0xE2, CHR 0x81, CHR 0x9F], [CHR 0xE3, CHR 0x80, CHR 0x80]]"

function trim_leading :: "string list \<Rightarrow> string \<Rightarrow> string" where
  "trim_leading pats s =
     (case find (\<lambda>w. w \<noteq> [] \<and> prefix w s) pats of
        None \<Rightarrow> s
      | Some w \<Rightarrow> trim_leading pats (drop (length w) s))"
  by pat_completeness auto
termination
proof (relation "measure (\<lambda>(pats, s). length s)")
  show "wf (measure (\<lambda>(pats, s). length s))" by simp
next
  fix pats :: "string list" and s w :: string
  assume "find (\<lambda>w. w \<noteq> [] \<and> prefix w s) pats = Some w"
  then have "w \<noteq> []" and "prefix w s"
    by (auto simp: find_Some_iff)
  then have "s \<noteq> []" by auto
  with \<open>w \<noteq> []\<close> show "((pats, drop (length w) s), pats, s) \<in> measure (\<lambda>(pats, s). length s)"
    by simp
qed

definition TrimSpace :: "string \<Rightarrow> string" where
  "TrimSpace s = rev (trim_leading (map rev space_runes) (rev (trim_leading space_runes s)))"

section \<open>The structs of \<^verbatim>\<open>backend/models/models.go\<close>\<close>

record Track =
  Track_ID :: int
  Track_Name :: string
  Track_Duration :: int
  Track_MusicianID :: "int option"
  Track_EnsembleID :: "int option"
  Track_MusicianName :: string
  Track_EnsembleName :: string

text \<open>
  A \<^verbatim>\<open>models.Record\<close> is the ten scanned columns and the \<^verbatim>\<open>Tracks\<close> slice; \<open>None\<close> is the
  \<^verbatim>\<open>nil\<close> slice (encoded as \<^verbatim>\<open>null\<close>), \<open>Some []\<close> the empty one (encoded as \<^verbatim>\<open>[]\<close>).
\<close>

record Record =
  Record_row :: record_row
  Record_Tracks :: "Track list option"

record CartItem =
  CartItem_UserID :: int
  CartItem_RecordID :: int
  CartItem_Quantity :: int
  CartItem_Record :: "Record option"

record AddTrackRequest =
  AddTrackRequest_Name :: string
  AddTrackRequest_Duration :: int

record AddMusicianRequest =
  AddMusicianRequest_FirstName :: string
  AddMusicianRequest_LastName :: string
  AddMusicianRequest_Role :: string
  AddMusicianRequest_EnsembleID :: "int option"
  AddMusicianRequest_Tracks :: "AddTrackRequest list"

record AddEnsembleRequest =
  AddEnsembleRequest_Name :: string
  AddEnsembleRequest_Type :: string
  AddEnsembleRequest_Tracks :: "AddTrackRequest list"

record AddRecordRequest =
  AddRecordRequest_Title :: string
  AddRecordRequest_Label :: string
  AddRecordRequest_WholesaleAddress :: string
  AddRecordRequest_WholesalePrice :: real
  AddRecordRequest_RetailPrice :: real
  AddRecordRequest_ReleaseDate :: string
  AddRecordRequest_Stock :: int
  AddRecordRequest_TrackIDs :: "int list"

text \<open>Lines written with \<^verbatim>\<open>log.Printf\<close> on the paths that skip instead of failing.\<close>

datatype log_line =
    Warning_linked_track_not_found int int
  | Warning_record_for_cart_item_not_found int
  | Skipping_track_with_invalid_data string int
  | Warning_track_not_found_skipping_link int int
  | Warning_duplicate_track_skipping int int
  | Error_scanning_cart_item_row

section \<open>Catalog aggregation: \<^verbatim>\<open>GetRecordsHandler\<close>\<close>

definition String :: "string option \<Rightarrow> string" where
  \<comment> \<open>the \<^verbatim>\<open>String\<close> field of a \<^verbatim>\<open>sql.NullString\<close>: empty when the column was \<^verbatim>\<open>NULL\<close>\<close>
  "String ns = (case ns of None \<Rightarrow> [] | Some s \<Rightarrow> s)"

definition scan_track :: "track_join_row \<Rightarrow> Track" where
  \<comment> \<open>the body of the loop over \<^verbatim>\<open>trackRows\<close>, lines 452-488\<close>
  "scan_track j =
     (let t = \<lparr>Track_ID = j_id j, Track_Name = j_name j, Track_Duration = j_duration j,
               Track_MusicianID = None, Track_EnsembleID = None,
               Track_MusicianName = [], Track_EnsembleName = []\<rparr>;
          t = (case j_musician_id j of
                 None \<Rightarrow> t
               | Some i \<Rightarrow>
                   t\<lparr>Track_MusicianID := Some i,
                     Track_MusicianName :=
                       (if j_first_name j \<noteq> None \<or> j_last_name j \<noteq> None
                        then TrimSpace (String (j_first_name j) @ '' '' @ String (j_last_name j))
                        else ''Unknown Musician'')\<rparr>);
          t = (case j_ensemble_id j of
                 None \<Rightarrow> t
               | Some i \<Rightarrow>
                   t\<lparr>Track_EnsembleID := Some i,
                     Track_EnsembleName :=
                       (case j_ensemble_name j of
                          Some n \<Rightarrow> n
                        | None \<Rightarrow> ''Unknown Ensemble'')\<rparr>)
      in t)"

definition GetAllTracksHandler :: "db \<Rightarrow> error + Track list" where
  \<comment> \<open>lines 1103-1165: the same join without a \<^verbatim>\<open>WHERE\<close> clause, and the same loop body\<close>
  "GetAllTracksHandler d = Inr (map scan_track (map (left_join d) (tracks d)))"

definition scan_tracks :: "track_join_row list \<Rightarrow> (int \<rightharpoonup> Track)" where
  \<comment> \<open>\<^verbatim>\<open>tracksMap[t.ID] = t\<close> for every row, a later row replacing an earlier one\<close>
  "scan_tracks rows = fold (\<lambda>j m. m(j_id j \<mapsto> scan_track j)) rows Map.empty"

fun collect_links ::
  "(int \<times> int) list \<Rightarrow> (int \<rightharpoonup> int list) \<times> int list \<Rightarrow> (int \<rightharpoonup> int list) \<times> int list" where
  \<comment> \<open>the loop over \<^verbatim>\<open>trackLinkRows\<close>, lines 401-412; \<^verbatim>\<open>trackIDSet\<close> is the set of \<^verbatim>\<open>trackIDs\<close>\<close>
  "collect_links [] acc = acc"
| "collect_links ((recordID, trackID) # rows) (recordTrackLinks, trackIDs) =
     collect_links rows
       (recordTrackLinks(recordID \<mapsto>
          (case recordTrackLinks recordID of None \<Rightarrow> [] | Some l \<Rightarrow> l) @ [trackID]),
        if trackID \<in> set trackIDs then trackIDs else trackIDs @ [trackID])"

definition attach_tracks :: "(int \<rightharpoonup> int list) \<Rightarrow> (int \<rightharpoonup> Track) \<Rightarrow> Record \<Rightarrow> Record" where
  \<comment> \<open>one round of the loop of step 4, lines 500-511\<close>
  "attach_tracks recordTrackLinks tracksMap r =
     (case recordTrackLinks (rec_id (Record_row r)) of
        None \<Rightarrow> r\<lparr>Record_Tracks := Some []\<rparr>
      | Some linkedTrackIDs \<Rightarrow>
          r\<lparr>Record_Tracks := Some (List.map_filter tracksMap linkedTrackIDs)\<rparr>)"

definition attach_warnings :: "(int \<rightharpoonup> int list) \<Rightarrow> (int \<rightharpoonup> Track) \<Rightarrow> Record \<Rightarrow> log_line list" where
  \<comment> \<open>what that round logs, line 509\<close>
  "attach_warnings recordTrackLinks tracksMap r =
     (case recordTrackLinks (rec_id (Record_row r)) of
        None \<Rightarrow> []
      | Some linkedTrackIDs \<Rightarrow>
          map (\<lambda>trackID. Warning_linked_track_not_found trackID (rec_id (Record_row r)))
            (filter (\<lambda>trackID. tracksMap trackID = None) linkedTrackIDs))"

definition scan_record :: "record_row \<Rightarrow> Record" where
  "scan_record x = \<lparr>Record_row = x, Record_Tracks = None\<rparr>"

definition assemble_records ::
  "(int \<rightharpoonup> int list) \<Rightarrow> (int \<rightharpoonup> Track) \<Rightarrow> Record list \<Rightarrow> Record list \<times> log_line list" where
  \<comment> \<open>step 4, lines 499-512: the records with their tracks, and the warnings logged on the way\<close>
  "assemble_records recordTrackLinks tracksMap rs =
     (map (attach_tracks recordTrackLinks tracksMap) rs,
      concat (map (attach_warnings recordTrackLinks tracksMap) rs))"

definition GetRecordsHandler :: "db \<Rightarrow> (error + Record list) \<times> log_line list" where
  "GetRecordsHandler d =
     (let rs = map scan_record (records d);
          recordIDs = map (\<lambda>r. rec_id (Record_row r)) rs
      in if rs = [] then (Inr rs, [])
         else
           (case select_record_tracks d (record_tracks_query recordIDs) recordIDs of
              Inl e \<Rightarrow>
                (Inl (StatusInternalServerError ''Database error fetching record tracks links''), [])
            | Inr trackLinkRows \<Rightarrow>
                (let links = collect_links trackLinkRows (Map.empty, []);
                     recordTrackLinks = fst links;
                     trackIDs = snd links
                 in if trackIDs = []
                    then (Inr (map (\<lambda>r. r\<lparr>Record_Tracks := Some []\<rparr>) rs), [])
                    else
                      (case select_tracks_joined d (tracks_query trackIDs) trackIDs of
                         Inl e \<Rightarrow> (Inl (StatusInternalServerError ''Database error fetching tracks''), [])
                       | Inr trackRows \<Rightarrow>
                           (case assemble_records recordTrackLinks (scan_tracks trackRows) rs of
                              (rs', warnings) \<Rightarrow> (Inr rs', warnings))))))"

section \<open>Cart contents: \<^verbatim>\<open>GetCartHandler\<close>\<close>

definition select_cart_items :: "db \<Rightarrow> int \<Rightarrow> cart_row list" where
  \<comment> \<open>\<^verbatim>\<open>SELECT user_id, record_id, quantity FROM cart_items WHERE user_id = ?\<close>: the engine
      answers it from the index of the primary key \<^verbatim>\<open>(user_id, record_id)\<close>, so the rows of
      one user come by ascending \<^verbatim>\<open>record_id\<close>\<close>
  "select_cart_items d userID =
     sort_key cart_record_id (filter (\<lambda>c. cart_user_id c = userID) (cart_items d))"

definition scan_cart_item :: "cart_row \<Rightarrow> CartItem option" where
  \<comment> \<open>\<^verbatim>\<open>cartItemRows.Scan(&item.UserID, &item.RecordID, &item.Quantity)\<close>: a \<^verbatim>\<open>REAL\<close> does
      not convert to the Go \<^verbatim>\<open>int\<close> of \<^verbatim>\<open>Quantity\<close>, and \<^verbatim>\<open>Scan\<close> returns an error\<close>
  "scan_cart_item c =
     (case cart_quantity c of
        INTEGER q \<Rightarrow>
          Some \<lparr>CartItem_UserID = cart_user_id c, CartItem_RecordID = cart_record_id c,
                CartItem_Quantity = q, CartItem_Record = None\<rparr>
      | REAL \<Rightarrow> None)"

definition scan_cart_items :: "cart_row list \<Rightarrow> CartItem list" where
  \<comment> \<open>the loop of lines 598-609: a row that does not scan is logged and skipped by
      \<^verbatim>\<open>continue\<close>\<close>
  "scan_cart_items cartItemRows = List.map_filter scan_cart_item cartItemRows"

definition scan_cart_errors :: "cart_row list \<Rightarrow> log_line list" where
  \<comment> \<open>what that loop logs, line 601\<close>
  "scan_cart_errors cartItemRows =
     map (\<lambda>c. Error_scanning_cart_item_row) (filter (\<lambda>c. scan_cart_item c = None) cartItemRows)"

definition distinct_ids :: "int list \<Rightarrow> int list" where
  \<comment> \<open>the id slices kept beside a \<^verbatim>\<open>map[int]bool\<close>: each id once, at its first occurrence\<close>
  "distinct_ids ids = fold (\<lambda>i acc. if i \<in> set acc then acc else acc @ [i]) ids []"

definition scan_records :: "record_row list \<Rightarrow> (int \<rightharpoonup> Record)" where
  \<comment> \<open>\<^verbatim>\<open>recordsMap[rec.ID] = rec\<close>, lines 640-650\<close>
  "scan_records rows = fold (\<lambda>x m. m(rec_id x \<mapsto> scan_record x)) rows Map.empty"

definition fill_cart_item ::
  "(int \<rightharpoonup> Record) \<Rightarrow> (int \<rightharpoonup> int list) \<Rightarrow> (int \<rightharpoonup> Track) \<Rightarrow> CartItem \<Rightarrow> CartItem" where
  \<comment> \<open>one round of the loop of step 5, lines 772-791\<close>
  "fill_cart_item recordsMap cartRecordTrackLinks cartTracksMap item =
     (case recordsMap (CartItem_RecordID item) of
        None \<Rightarrow> item\<lparr>CartItem_Record := None\<rparr>
      | Some record \<Rightarrow>
          item\<lparr>CartItem_Record := Some (attach_tracks cartRecordTrackLinks cartTracksMap record)\<rparr>)"

definition fill_warnings ::
  "(int \<rightharpoonup> Record) \<Rightarrow> (int \<rightharpoonup> int list) \<Rightarrow> (int \<rightharpoonup> Track) \<Rightarrow> CartItem \<Rightarrow> log_line list" where
  \<comment> \<open>what that round logs, lines 775 and 789\<close>
  "fill_warnings recordsMap cartRecordTrackLinks cartTracksMap item =
     (case recordsMap (CartItem_RecordID item) of
        None \<Rightarrow> [Warning_record_for_cart_item_not_found (CartItem_RecordID item)]
      | Some record \<Rightarrow> attach_warnings cartRecordTrackLinks cartTracksMap record)"

definition fetch_cart_tracks :: "db \<Rightarrow> int list \<Rightarrow> sql_error + (int \<rightharpoonup> Track)" where
  \<comment> \<open>step 4, lines 705-768: no query at all when no track is linked\<close>
  "fetch_cart_tracks d cartTrackIDs =
     (if cartTrackIDs \<noteq> []
      then (case select_tracks_joined d (cart_tracks_query cartTrackIDs) cartTrackIDs of
              Inl e \<Rightarrow> Inl e
            | Inr cartTrackRows \<Rightarrow> Inr (scan_tracks cartTrackRows))
      else Inr Map.empty)"

definition GetCartHandler :: "db \<Rightarrow> int \<Rightarrow> (error + CartItem list) \<times> log_line list" where
  "GetCartHandler d userID =
     (let cartItemRows = select_cart_items d userID;
          cartItems = scan_cart_items cartItemRows;
          skipped = scan_cart_errors cartItemRows;
          recordIDs = distinct_ids (map CartItem_RecordID cartItems)
      in if cartItems = [] then (Inr cartItems, skipped)
         else
           (case select_records_in d (records_query recordIDs) recordIDs of
              Inl e \<Rightarrow>
                (Inl (StatusInternalServerError ''Database error fetching records for cart''),
                 skipped)
            | Inr recordRows \<Rightarrow>
                (let recordsMap = scan_records recordRows;
                     fetchedRecordIDs = distinct_ids (map rec_id recordRows)
                 in if fetchedRecordIDs = [] then (Inr cartItems, skipped)
                    else
                      (case select_record_tracks d (record_tracks_query fetchedRecordIDs)
                              fetchedRecordIDs of
                         Inl e \<Rightarrow>
                           (Inl (StatusInternalServerError
                                   ''Database error fetching record tracks links for cart''),
                            skipped)
                       | Inr linkRows \<Rightarrow>
                           (let links = collect_links linkRows (Map.empty, []);
                                cartRecordTrackLinks = fst links;
                                cartTrackIDs = snd links
                            in case fetch_cart_tracks d cartTrackIDs of
                                 Inl e \<Rightarrow>
                                   (Inl (StatusInternalServerError
                                           ''Database error fetching tracks for cart''), skipped)
                               | Inr cartTracksMap \<Rightarrow>
                                   (Inr (map (fill_cart_item recordsMap cartRecordTrackLinks
                                               cartTracksMap) cartItems),
                                    skipped @
                                    concat (map (fill_warnings recordsMap cartRecordTrackLinks
                                                  cartTracksMap) cartItems)))))))"

section \<open>Admin writes in a transaction\<close>

text \<open>
  The \<^verbatim>\<open>UNIQUE\<close> and the \<^verbatim>\<open>CHECK\<close> constraints act as \<^verbatim>\<open>createTables\<close> declares them, and
  the foreign keys do while \<open>foreign_keys\<close> is on. A key assigned by \<^verbatim>\<open>AUTOINCREMENT\<close> is
  one more than the largest key the table holds or ever held.
\<close>

definition next_id :: "int \<Rightarrow> int list \<Rightarrow> int" where
  "next_id seq ids = fold max ids seq + 1"

definition insert_ensemble :: "db \<Rightarrow> string \<Rightarrow> string \<Rightarrow> sql_error + db \<times> int" where
  \<comment> \<open>\<^verbatim>\<open>INSERT INTO ensembles (name, type) VALUES (?, ?)\<close>\<close>
  "insert_ensemble w name type =
     (if name \<in> set (map ens_name (ensembles w)) then Inl UNIQUE_constraint_failed
      else let i = next_id (seq_ensembles w) (map ens_id (ensembles w))
           in Inr (w\<lparr>ensembles := ensembles w @ [\<lparr>ens_id = i, ens_name = name, ens_type = type\<rparr>],
                     seq_ensembles := i\<rparr>, i))"

definition insert_musician ::
  "db \<Rightarrow> string \<Rightarrow> string \<Rightarrow> string \<Rightarrow> int option \<Rightarrow> sql_error + db \<times> int" where
  \<comment> \<open>\<^verbatim>\<open>INSERT INTO musicians (first_name, last_name, role, ensemble_id) VALUES (?, ?, ?, ?)\<close>\<close>
  "insert_musician w first_name last_name role ensemble_id =
     (if foreign_keys w
         \<and> (case ensemble_id of None \<Rightarrow> False | Some e \<Rightarrow> e \<notin> set (map ens_id (ensembles w)))
      then Inl FOREIGN_KEY_constraint_failed
      else let i = next_id (seq_musicians w) (map mus_id (musicians w))
           in Inr (w\<lparr>musicians := musicians w @
                       [\<lparr>mus_id = i, mus_first_name = first_name, mus_last_name = last_name,
                         mus_role = role, mus_ensemble_id = ensemble_id\<rparr>],
                     seq_musicians := i\<rparr>, i))"

definition insert_track ::
  "db \<Rightarrow> string \<Rightarrow> int \<Rightarrow> int option \<Rightarrow> int option \<Rightarrow> sql_error + db" where
  \<comment> \<open>\<^verbatim>\<open>INSERT INTO tracks (name, duration, musician_id, ensemble_id) VALUES (?, ?, ?, ?)\<close>\<close>
  "insert_track w name duration musician_id ensemble_id =
     (if \<not> ((musician_id = None \<and> ensemble_id \<noteq> None) \<or> (musician_id \<noteq> None \<and> ensemble_id = None))
      then Inl CHECK_constraint_failed
      else if foreign_keys w
            \<and> ((case musician_id of None \<Rightarrow> False | Some m \<Rightarrow> m \<notin> set (map mus_id (musicians w)))
               \<or> (case ensemble_id of None \<Rightarrow> False | Some e \<Rightarrow> e \<notin> set (map ens_id (ensembles w))))
      then Inl FOREIGN_KEY_constraint_failed
      else let i = next_id (seq_tracks w) (map trk_id (tracks w))
           in Inr (w\<lparr>tracks := tracks w @
                       [\<lparr>trk_id = i, trk_name = name, trk_duration = duration,
                         trk_musician_id = musician_id, trk_ensemble_id = ensemble_id\<rparr>],
                     seq_tracks := i\<rparr>))"

definition insert_record :: "db \<Rightarrow> AddRecordRequest \<Rightarrow> sql_error + db \<times> int" where
  \<comment> \<open>\<^verbatim>\<open>INSERT INTO records (title, ..., stock, sold_last_year, sold_current_year) VALUES (?, ..., ?, 0, 0)\<close>\<close>
  "insert_record w req =
     (let i = next_id (seq_records w) (map rec_id (records w))
      in Inr (w\<lparr>records := records w @
                  [\<lparr>rec_id = i, rec_title = AddRecordRequest_Title req,
                    rec_label = AddRecordRequest_Label req,
                    rec_wholesale_address = AddRecordRequest_WholesaleAddress req,
                    rec_wholesale_price = AddRecordRequest_WholesalePrice req,
                    rec_retail_price = AddRecordRequest_RetailPrice req,
                    rec_release_date = AddRecordRequest_ReleaseDate req,
                    rec_sold_last_year = 0, rec_sold_current_year = 0,
                    rec_stock = AddRecordRequest_Stock req\<rparr>],
                seq_records := i\<rparr>, i))"

definition insert_record_track :: "db \<Rightarrow> int \<Rightarrow> int \<Rightarrow> sql_error + db" where
  \<comment> \<open>\<^verbatim>\<open>INSERT INTO record_tracks (record_id, track_id) VALUES (?, ?)\<close>\<close>
  "insert_record_track w record_id track_id =
     (if (record_id, track_id) \<in> set (record_tracks w) then Inl UNIQUE_constraint_failed
      else if foreign_keys w
            \<and> (record_id \<notin> set (map rec_id (records w)) \<or> track_id \<notin> set (map trk_id (tracks w)))
      then Inl FOREIGN_KEY_constraint_failed
      else Inr (w\<lparr>record_tracks := record_tracks w @ [(record_id, track_id)]\<rparr>))"

text \<open>
  Besides the constraint failures above, any call into the engine can fail for reasons
  outside the tables (the connection, the disk). The handlers of this section take a
  predicate \<open>fault\<close> that says which of their calls fails in that way; a call that fails
  changes nothing. The number in a call is the position in the request's list.
\<close>

datatype call =
    Begin
  | Exec_first_insert
  | LastInsertId
  | Exec_insert_track nat
  | Prepare
  | QueryRow_track_exists nat
  | Exec_insert_link nat
  | Commit

definition exec :: "(call \<Rightarrow> bool) \<Rightarrow> call \<Rightarrow> sql_error + 'a \<Rightarrow> sql_error + 'a" where
  "exec fault c r = (if fault c then Inl Storage_fault else r)"

text \<open>
  How a request leaves its transaction. \<open>Left_open w\<close>: neither \<^verbatim>\<open>Commit\<close> nor \<^verbatim>\<open>Rollback\<close>
  was called, and \<open>w\<close> is the uncommitted working copy the transaction still holds.
  \<open>store\<close> is the committed database after the request. A transaction holds the write
  lock of the database file from its first \<^verbatim>\<open>INSERT\<close> on, also when that statement fails on
  a constraint, until it ends. Every return of these handlers that leaves the transaction
  open comes after its first \<^verbatim>\<open>INSERT\<close>. Such a transaction never ends: nothing refers to
  it any more, its connection is not handed back to the pool, and from then on the engine
  refuses every write of every other request (\<^verbatim>\<open>database is locked\<close>) until the process is
  restarted. \<open>holds_write_lock\<close> says whether a request left the database like that. To a
  later request of this section the lock is a fault of its first \<^verbatim>\<open>INSERT\<close>. The handlers of
  the other sections are modelled on a database that no request has left in that state.
\<close>

datatype tx_end = No_transaction | Committed | Rolled_back | Left_open db

record outcome =
  response :: "error + int"
  store :: db
  tx :: tx_end
  logged :: "log_line list"

definition holds_write_lock :: "outcome \<Rightarrow> bool" where
  "holds_write_lock out = (case tx out of Left_open w \<Rightarrow> True | _ \<Rightarrow> False)"

definition early_return :: "db \<Rightarrow> db \<Rightarrow> bool \<Rightarrow> error \<Rightarrow> log_line list \<Rightarrow> outcome" where
  \<comment> \<open>a \<^verbatim>\<open>return\<close> after \<^verbatim>\<open>respondWithError\<close>, followed by the deferred function: it calls
      \<^verbatim>\<open>tx.Rollback()\<close> exactly when the \<^verbatim>\<open>err\<close> declared beside \<^verbatim>\<open>tx\<close> is not \<^verbatim>\<open>nil\<close>\<close>
  "early_return d w err_not_nil e l =
     \<lparr>response = Inl e, store = d,
      tx = (if err_not_nil then Rolled_back else Left_open w), logged = l\<rparr>"

fun insert_tracks ::
  "(call \<Rightarrow> bool) \<Rightarrow> int option \<Rightarrow> int option \<Rightarrow> nat \<Rightarrow> AddTrackRequest list \<Rightarrow> db
     \<Rightarrow> sql_error option \<times> db \<times> log_line list" where
  \<comment> \<open>the loops over \<^verbatim>\<open>req.Tracks\<close>, lines 965-978 and 1046-1059; the result says whether an
      insert failed, and gives the working copy reached and the lines logged\<close>
  "insert_tracks fault musician_id ensemble_id i [] w = (None, w, [])"
| "insert_tracks fault musician_id ensemble_id i (trackReq # rest) w =
     (if AddTrackRequest_Name trackReq = [] \<or> AddTrackRequest_Duration trackReq \<le> 0
      then (case insert_tracks fault musician_id ensemble_id (Suc i) rest w of
              (e, w', l) \<Rightarrow>
                (e, w', Skipping_track_with_invalid_data (AddTrackRequest_Name trackReq)
                          (AddTrackRequest_Duration trackReq) # l))
      else (case exec fault (Exec_insert_track i)
                   (insert_track w (AddTrackRequest_Name trackReq)
                      (AddTrackRequest_Duration trackReq) musician_id ensemble_id) of
              Inl e \<Rightarrow> (Some e, w, [])
            | Inr w' \<Rightarrow> insert_tracks fault musician_id ensemble_id (Suc i) rest w'))"

definition AddMusicianHandler :: "(call \<Rightarrow> bool) \<Rightarrow> db \<Rightarrow> AddMusicianRequest \<Rightarrow> outcome" where
  "AddMusicianHandler fault d req =
     (if AddMusicianRequest_FirstName req = [] \<or> AddMusicianRequest_LastName req = []
      then \<lparr>response = Inl (StatusBadRequest ''First name and last name are required for a musician''),
            store = d, tx = No_transaction, logged = []\<rparr>
      else if fault Begin
      then \<lparr>response = Inl (StatusInternalServerError ''Database error starting transaction''),
            store = d, tx = No_transaction, logged = []\<rparr>
      else
        (case exec fault Exec_first_insert
                (insert_musician d (AddMusicianRequest_FirstName req)
                   (AddMusicianRequest_LastName req) (AddMusicianRequest_Role req)
                   (AddMusicianRequest_EnsembleID req)) of
           Inl e \<Rightarrow> early_return d d True (StatusInternalServerError ''Failed to add musician'') []
         | Inr (w1, musicianID) \<Rightarrow>
             if fault LastInsertId
             then early_return d w1 True (StatusInternalServerError ''Failed to add musician'') []
             else
               (case insert_tracks fault (Some musicianID) None 0
                       (AddMusicianRequest_Tracks req) w1 of
                  (Some e, w2, l) \<Rightarrow>
                    early_return d w2 True
                      (StatusInternalServerError ''Failed to add musician's tracks'') l
                | (None, w2, l) \<Rightarrow>
                    if fault Commit
                    then early_return d w2 True
                           (StatusInternalServerError ''Database error committing transaction'') l
                    else \<lparr>response = Inr musicianID, store = w2, tx = Committed, logged = l\<rparr>)))"

definition AddEnsembleHandler :: "(call \<Rightarrow> bool) \<Rightarrow> db \<Rightarrow> AddEnsembleRequest \<Rightarrow> outcome" where
  "AddEnsembleHandler fault d req =
     (if AddEnsembleRequest_Name req = []
      then \<lparr>response = Inl (StatusBadRequest ''Name is required for an ensemble''),
            store = d, tx = No_transaction, logged = []\<rparr>
      else if fault Begin
      then \<lparr>response = Inl (StatusInternalServerError ''Database error starting transaction''),
            store = d, tx = No_transaction, logged = []\<rparr>
      else
        (case exec fault Exec_first_insert
                (insert_ensemble d (AddEnsembleRequest_Name req) (AddEnsembleRequest_Type req)) of
           Inl e \<Rightarrow>
             if e = UNIQUE_constraint_failed
             then early_return d d False (StatusConflict ''Ensemble name already exists'') []
             else early_return d d True (StatusInternalServerError ''Failed to add ensemble'') []
         | Inr (w1, ensembleID) \<Rightarrow>
             if fault LastInsertId
             then early_return d w1 True (StatusInternalServerError ''Failed to add ensemble'') []
             else
               (case insert_tracks fault None (Some ensembleID) 0
                       (AddEnsembleRequest_Tracks req) w1 of
                  (Some e, w2, l) \<Rightarrow>
                    early_return d w2 True
                      (StatusInternalServerError ''Failed to add ensemble's tracks'') l
                | (None, w2, l) \<Rightarrow>
                    if fault Commit
                    then early_return d w2 True
                           (StatusInternalServerError ''Database error committing transaction'') l
                    else \<lparr>response = Inr ensembleID, store = w2, tx = Committed, logged = l\<rparr>)))"

fun link_tracks ::
  "(call \<Rightarrow> bool) \<Rightarrow> db \<Rightarrow> int \<Rightarrow> nat \<Rightarrow> int list \<Rightarrow> db \<Rightarrow> sql_error option \<times> db \<times> log_line list" where
  \<comment> \<open>the loop over \<^verbatim>\<open>req.TrackIDs\<close>, lines 1233-1254; the existence check goes through
      \<^verbatim>\<open>db\<close>, not \<^verbatim>\<open>tx\<close>, so it reads the committed database \<open>d\<close>\<close>
  "link_tracks fault d recordID i [] w = (None, w, [])"
| "link_tracks fault d recordID i (trackID # rest) w =
     (if fault (QueryRow_track_exists i) \<or> trackID \<notin> set (map trk_id (tracks d))
      then (case link_tracks fault d recordID (Suc i) rest w of
              (e, w', l) \<Rightarrow> (e, w', Warning_track_not_found_skipping_link trackID recordID # l))
      else (case exec fault (Exec_insert_link i) (insert_record_track w recordID trackID) of
              Inl e \<Rightarrow>
                if e = UNIQUE_constraint_failed
                then (case link_tracks fault d recordID (Suc i) rest w of
                        (e', w', l) \<Rightarrow>
                          (e', w', Warning_duplicate_track_skipping trackID recordID # l))
                else (Some e, w, [])
            | Inr w' \<Rightarrow> link_tracks fault d recordID (Suc i) rest w'))"

definition AddRecordHandler :: "(call \<Rightarrow> bool) \<Rightarrow> db \<Rightarrow> AddRecordRequest \<Rightarrow> outcome" where
  \<comment> \<open>inside \<^verbatim>\<open>if len(req.TrackIDs) > 0\<close> the statement \<^verbatim>\<open>stmt, err := tx.Prepare(...)\<close> declares a
      second \<^verbatim>\<open>err\<close>; the returns of that block leave the \<^verbatim>\<open>err\<close> the deferred function reads \<^verbatim>\<open>nil\<close>\<close>
  "AddRecordHandler fault d req =
     (if AddRecordRequest_Title req = []
      then \<lparr>response = Inl (StatusBadRequest ''Title is required for a record''),
            store = d, tx = No_transaction, logged = []\<rparr>
      else if AddRecordRequest_Stock req < 0
      then \<lparr>response = Inl (StatusBadRequest ''Stock cannot be negative''),
            store = d, tx = No_transaction, logged = []\<rparr>
      else if fault Begin
      then \<lparr>response = Inl (StatusInternalServerError ''Database error starting transaction''),
            store = d, tx = No_transaction, logged = []\<rparr>
      else
        (case exec fault Exec_first_insert (insert_record d req) of
           Inl e \<Rightarrow> early_return d d True (StatusInternalServerError ''Failed to add record'') []
         | Inr (w1, recordID) \<Rightarrow>
             if fault LastInsertId
             then early_return d w1 True (StatusInternalServerError ''Failed to add record'') []
             else if AddRecordRequest_TrackIDs req \<noteq> [] \<and> fault Prepare
             then early_return d w1 False
                    (StatusInternalServerError ''Failed to add record tracks'') []
             else
               (case link_tracks fault d recordID 0 (AddRecordRequest_TrackIDs req) w1 of
                  (Some e, w2, l) \<Rightarrow>
                    early_return d w2 False
                      (StatusInternalServerError ''Failed to link record tracks'') l
                | (None, w2, l) \<Rightarrow>
                    if fault Commit
                    then early_return d w2 True
                           (StatusInternalServerError ''Database error committing transaction'') l
                    else \<lparr>response = Inr recordID, store = w2, tx = Committed, logged = l\<rparr>)))"

section \<open>Deletes and their cascades\<close>

text \<open>
  \<^verbatim>\<open>record_tracks.record_id\<close> and \<^verbatim>\<open>cart_items.record_id\<close> are declared
  \<^verbatim>\<open>ON DELETE CASCADE\<close>. The engine runs that action for a deleted record only while
  \<open>foreign_keys\<close> is on; while it is off, the \<^verbatim>\<open>DELETE\<close> removes the row of \<^verbatim>\<open>records\<close> and
  nothing else.
\<close>

definition delete_record :: "db \<Rightarrow> int \<Rightarrow> db \<times> nat" where
  \<comment> \<open>\<^verbatim>\<open>DELETE FROM records WHERE id = ?\<close>, with \<^verbatim>\<open>RowsAffected\<close>\<close>
  "delete_record d r =
     (if record_exists d r
      then ((if foreign_keys d
             then d\<lparr>records := filter (\<lambda>x. rec_id x \<noteq> r) (records d),
                    record_tracks :=
                      filter (\<lambda>(record_id, track_id). record_id \<noteq> r) (record_tracks d),
                    cart_items := filter (\<lambda>c. cart_record_id c \<noteq> r) (cart_items d)\<rparr>
             else d\<lparr>records := filter (\<lambda>x. rec_id x \<noteq> r) (records d)\<rparr>),
            length (filter (\<lambda>x. rec_id x = r) (records d)))
      else (d, 0))"

definition DeleteRecordHandler :: "db \<Rightarrow> int \<Rightarrow> (error + string) \<times> db" where
  "DeleteRecordHandler d recordID =
     (if recordID \<le> 0 then (Inl (StatusBadRequest ''Invalid record ID in URL''), d)
      else case delete_record d recordID of (d', rowsAffected) \<Rightarrow>
             if rowsAffected = 0 then (Inl (StatusNotFound ''Record not found''), d')
             else (Inr ''Record deleted successfully'', d'))"

text \<open>
  No handler deletes a musician or an ensemble. The two statements below are what such a
  delete does to the tables of \<^verbatim>\<open>createTables\<close>, given here because track ownership is
  stated over them: with \<open>foreign_keys\<close> on, the owner's tracks go with the owner and the
  links of those tracks with them; with it off, only the owner's row goes.
\<close>

definition delete_tracks_where :: "(track_row \<Rightarrow> bool) \<Rightarrow> db \<Rightarrow> db" where
  \<comment> \<open>the tracks removed by a cascade, and \<^verbatim>\<open>record_tracks.track_id ... ON DELETE CASCADE\<close> after them\<close>
  "delete_tracks_where P d =
     d\<lparr>tracks := filter (\<lambda>t. \<not> P t) (tracks d),
       record_tracks :=
         filter (\<lambda>(record_id, track_id). track_id \<notin> set (map trk_id (filter P (tracks d))))
           (record_tracks d)\<rparr>"

definition delete_musician :: "db \<Rightarrow> int \<Rightarrow> db" where
  \<comment> \<open>\<^verbatim>\<open>DELETE FROM musicians WHERE id = ?\<close> under \<^verbatim>\<open>tracks.musician_id ... ON DELETE CASCADE\<close>\<close>
  "delete_musician d m =
     (if m \<in> set (map mus_id (musicians d))
      then if foreign_keys d
           then delete_tracks_where (\<lambda>t. trk_musician_id t = Some m)
                  (d\<lparr>musicians := filter (\<lambda>x. mus_id x \<noteq> m) (musicians d)\<rparr>)
           else d\<lparr>musicians := filter (\<lambda>x. mus_id x \<noteq> m) (musicians d)\<rparr>
      else d)"

definition delete_ensemble :: "db \<Rightarrow> int \<Rightarrow> db" where
  \<comment> \<open>\<^verbatim>\<open>DELETE FROM ensembles WHERE id = ?\<close> under \<^verbatim>\<open>musicians.ensemble_id ... ON DELETE SET NULL\<close>
      and \<^verbatim>\<open>tracks.ensemble_id ... ON DELETE CASCADE\<close>\<close>
  "delete_ensemble d e =
     (if e \<in> set (map ens_id (ensembles d))
      then if foreign_keys d
           then delete_tracks_where (\<lambda>t. trk_ensemble_id t = Some e)
                  (d\<lparr>ensembles := filter (\<lambda>x. ens_id x \<noteq> e) (ensembles d),
                     musicians :=
                       map (\<lambda>x. if mus_ensemble_id x = Some e then x\<lparr>mus_ensemble_id := None\<rparr>
                                else x)
                         (musicians d)\<rparr>)
           else d\<lparr>ensembles := filter (\<lambda>x. ens_id x \<noteq> e) (ensembles d)\<rparr>
      else d)"

section \<open>Predicates the properties are stated with\<close>


definition track_owner_ok :: "track_row \<Rightarrow> bool" where
  \<comment> \<open>exactly one owner: the \<^verbatim>\<open>CHECK\<close> constraint of \<^verbatim>\<open>tracks\<close>\<close>
  "track_owner_ok t =
     ((trk_musician_id t = None \<and> trk_ensemble_id t \<noteq> None)
      \<or> (trk_musician_id t \<noteq> None \<and> trk_ensemble_id t = None))"

section \<open>Example stores\<close>

definition example_record :: "int \<Rightarrow> string \<Rightarrow> int \<Rightarrow> record_row" where
  "example_record i title stock =
     \<lparr>rec_id = i, rec_title = title, rec_label = ''EMI'', rec_wholesale_address = ''Abbey Road 3'',
      rec_wholesale_price = 10, rec_retail_price = 15, rec_release_date = ''2024-05-01'',
      rec_sold_last_year = 0, rec_sold_current_year = 0, rec_stock = stock\<rparr>"

definition example_store :: db where
  \<comment> \<open>two users, an ensemble with one track, a musician with one track, two records of
      which the first carries both tracks, and one cart row; the database was opened as
      \<^verbatim>\<open>InitDB\<close> opens a plain file name\<close>
  "example_store =
     \<lparr>foreign_keys = False, users = [1, 2],
      ensembles = [\<lparr>ens_id = 1, ens_name = ''Quartet A'', ens_type = ''quartet''\<rparr>],
      musicians = [\<lparr>mus_id = 1, mus_first_name = ''Ann'', mus_last_name = ''Lee'',
                    mus_role = ''drums'', mus_ensemble_id = Some 1\<rparr>],
      tracks = [\<lparr>trk_id = 1, trk_name = ''Intro'', trk_duration = 120,
                 trk_musician_id = None, trk_ensemble_id = Some 1\<rparr>,
                \<lparr>trk_id = 2, trk_name = ''Solo'', trk_duration = 95,
                 trk_musician_id = Some 1, trk_ensemble_id = None\<rparr>],
      records = [example_record 5 ''Live Set'' 0, example_record 6 ''Studio'' 3],
      record_tracks = [(5, 1), (5, 2)],
      cart_items = [\<lparr>cart_user_id = 2, cart_record_id = 6, cart_quantity = INTEGER 1\<rparr>],
      seq_ensembles = 1, seq_musicians = 1, seq_tracks = 2, seq_records = 6\<rparr>"

definition single_link_store :: db where
  \<comment> \<open>the same store with one track on one record\<close>
  "single_link_store = example_store\<lparr>record_tracks := [(5, 1)]\<rparr>"

definition unlinked_store :: db where
  \<comment> \<open>the same store before any track was put on a record\<close>
  "unlinked_store = example_store\<lparr>record_tracks := []\<rparr>"

definition no_fault :: "call \<Rightarrow> bool" where
  "no_fault c = False"

definition nameless_track :: track_row where
  "nameless_track = \<lparr>trk_id = 1, trk_name = ''Solo'', trk_duration = 95,
                      trk_musician_id = Some 1, trk_ensemble_id = None\<rparr>"

definition nameless_store :: db where
  \<comment> \<open>one musician whose two name columns hold the empty string, and the track that musician owns\<close>
  "nameless_store =
     createTables\<lparr>musicians := [\<lparr>mus_id = 1, mus_first_name = [], mus_last_name = [],
                                  mus_role = ''drums'', mus_ensemble_id = None\<rparr>],
                  tracks := [nameless_track], seq_musicians := 1, seq_tracks := 1\<rparr>"


definition overflown_store :: db where
  \<comment> \<open>the example store after user 1 added \<open>2^63 - 1\<close> copies of record 5 and then one more\<close>
  "overflown_store =
     example_store\<lparr>cart_items :=
       [\<lparr>cart_user_id = 2, cart_record_id = 6, cart_quantity = INTEGER 1\<rparr>,
        \<lparr>cart_user_id = 1, cart_record_id = 5, cart_quantity = REAL\<rparr>]\<rparr>"

definition enforcing_store :: db where
  \<comment> \<open>the example store on a connection that has \<open>foreign_keys\<close> on\<close>
  "enforcing_store = example_store\<lparr>foreign_keys := True\<rparr>"

definition example_tracks :: "AddTrackRequest list" where
  \<comment> \<open>the second one has no name and is skipped\<close>
  "example_tracks =
     [\<lparr>AddTrackRequest_Name = ''Opening'', AddTrackRequest_Duration = 200\<rparr>,
      \<lparr>AddTrackRequest_Name = [], AddTrackRequest_Duration = 10\<rparr>,
      \<lparr>AddTrackRequest_Name = ''Finale'', AddTrackRequest_Duration = 300\<rparr>]"

definition example_musician :: AddMusicianRequest where
  "example_musician =
     \<lparr>AddMusicianRequest_FirstName = ''Bo'', AddMusicianRequest_LastName = ''Ray'',
      AddMusicianRequest_Role = ''bass'', AddMusicianRequest_EnsembleID = Some 1,
      AddMusicianRequest_Tracks = example_tracks\<rparr>"

definition example_ensemble :: "string \<Rightarrow> AddEnsembleRequest" where
  "example_ensemble name =
     \<lparr>AddEnsembleRequest_Name = name, AddEnsembleRequest_Type = ''trio'',
      AddEnsembleRequest_Tracks = example_tracks\<rparr>"

definition example_new_record :: "int list \<Rightarrow> AddRecordRequest" where
  "example_new_record trackIDs =
     \<lparr>AddRecordRequest_Title = ''Encore'', AddRecordRequest_Label = ''EMI'',
      AddRecordRequest_WholesaleAddress = ''Abbey Road 3'', AddRecordRequest_WholesalePrice = 8,
      AddRecordRequest_RetailPrice = 12, AddRecordRequest_ReleaseDate = ''2025-01-15'',
      AddRecordRequest_Stock = 4, AddRecordRequest_TrackIDs = trackIDs\<rparr>"

definition fault_at :: "call \<Rightarrow> call \<Rightarrow> bool" where
  \<comment> \<open>exactly the call \<open>c\<close> fails\<close>
  "fault_at c c' = (c' = c)"

definition with_stock :: "(record_row \<Rightarrow> int) \<Rightarrow> db \<Rightarrow> db" where
  \<comment> \<open>the same store with every record's stock replaced\<close>
  "with_stock f d = d\<lparr>records := map (\<lambda>x. x\<lparr>rec_stock := f x\<rparr>) (records d)\<rparr>"

section \<open>Properties of the cart: accumulation\<close>

lemma find_None_list_ex: "find P xs = None \<longleftrightarrow> \<not> list_ex P xs"
  by (induction xs) auto

lemma find_map_upd_quantity:
  "find (is_cart_row u r) (map (\<lambda>c. if is_cart_row u r c then c\<lparr>cart_quantity := f c\<rparr> else c) xs)
     = map_option (\<lambda>c. c\<lparr>cart_quantity := f c\<rparr>) (find (is_cart_row u r) xs)"
  by (induction xs) (auto simp: is_cart_row_def)

lemma find_append_absent: "\<not> list_ex P xs \<Longrightarrow> find P (xs @ ys) = find P ys"
  by (induction xs) auto

lemma map_upd_absent:
  "\<not> list_ex P xs \<Longrightarrow> map (\<lambda>c. if P c then g c else c) xs = xs"
  by (induction xs) auto

lemma sql_add_in_range:
  "MinInt64 \<le> a + b \<Longrightarrow> a + b \<le> MaxInt64 \<Longrightarrow> sql_add (INTEGER a) b = INTEGER (a + b)"
  by (simp add: sql_add_def)

lemma sql_add_overflow: "MaxInt64 < a + b \<Longrightarrow> sql_add (INTEGER a) b = REAL"
  by (simp add: sql_add_def)

lemma cart_upsert_absent:
  assumes "cart_quantity_of d u r = None" "u \<in> set (users d)" "record_exists d r"
  shows "cart_upsert d u r q = Inr (d\<lparr>cart_items :=
           cart_items d @ [\<lparr>cart_user_id = u, cart_record_id = r, cart_quantity = INTEGER q\<rparr>]\<rparr>)"
  using assms by (simp add: cart_upsert_def cart_quantity_of_def find_None_list_ex)

lemma cart_upsert_present:
  assumes "cart_quantity_of d u r = Some v"
  shows "\<exists>d'. cart_upsert d u r q = Inr d' \<and> cart_quantity_of d' u r = Some (sql_add v q)"
proof -
  from assms have ex: "list_ex (is_cart_row u r) (cart_items d)"
    using find_None_list_ex [of "is_cart_row u r" "cart_items d"]
    by (auto simp: cart_quantity_of_def)
  then show ?thesis
    using assms by (auto simp: cart_upsert_def cart_quantity_of_def find_map_upd_quantity)
qed

lemma add_present:
  assumes "record_exists d r" "0 < r" "1 \<le> q1" "cart_quantity_of d u r = Some v"
  shows "fst (AddToCartHandler d u r q1) = Inr ''Item added to cart''
         \<and> cart_quantity_of (snd (AddToCartHandler d u r q1)) u r = Some (sql_add v q1)"
proof -
  from cart_upsert_present [OF assms(4), of q1] obtain d' where
    "cart_upsert d u r q1 = Inr d'" "cart_quantity_of d' u r = Some (sql_add v q1)" by blast
  with assms show ?thesis by (simp add: AddToCartHandler_def)
qed

lemma add_absent_twice:
  assumes "u \<in> set (users d)" and "record_exists d r" and "0 < r"
    and "1 \<le> q1" and "1 \<le> q2" and a: "cart_quantity_of d u r = None"
  shows "fst (AddToCartHandler d u r q1) = Inr ''Item added to cart''
         \<and> cart_quantity_of (snd (AddToCartHandler d u r q1)) u r = Some (INTEGER q1)
         \<and> fst (AddToCartHandler (snd (AddToCartHandler d u r q1)) u r q2) = Inr ''Item added to cart''
         \<and> cart_quantity_of (snd (AddToCartHandler (snd (AddToCartHandler d u r q1)) u r q2)) u r
             = Some (sql_add (INTEGER q1) q2)
         \<and> (q1 + q2 \<le> MaxInt64 \<longrightarrow>
              snd (AddToCartHandler (snd (AddToCartHandler d u r q1)) u r q2)
                = snd (AddToCartHandler d u r (q1 + q2)))"
proof -
  define row where "row v = \<lparr>cart_user_id = u, cart_record_id = r, cart_quantity = v\<rparr>" for v
  define d1 where "d1 = d\<lparr>cart_items := cart_items d @ [row (INTEGER q1)]\<rparr>"
  define d2 where "d2 = d\<lparr>cart_items := cart_items d @ [row (sql_add (INTEGER q1) q2)]\<rparr>"
  define d12 where "d12 = d\<lparr>cart_items := cart_items d @ [row (INTEGER (q1 + q2))]\<rparr>"
  from a have nex: "\<not> list_ex (is_cart_row u r) (cart_items d)"
    by (simp add: cart_quantity_of_def find_None_list_ex)
  have s1: "AddToCartHandler d u r q1 = (Inr ''Item added to cart'', d1)"
    using assms cart_upsert_absent [OF a assms(1,2), of q1]
    by (simp add: AddToCartHandler_def d1_def row_def)
  have s12: "AddToCartHandler d u r (q1 + q2) = (Inr ''Item added to cart'', d12)"
    using assms cart_upsert_absent [OF a assms(1,2), of "q1 + q2"]
    by (simp add: AddToCartHandler_def row_def d12_def)
  have q1: "cart_quantity_of d1 u r = Some (INTEGER q1)"
    using nex by (simp add: cart_quantity_of_def d1_def find_append_absent row_def is_cart_row_def)
  have ex1: "list_ex (is_cart_row u r) (cart_items d1)"
    by (simp add: d1_def row_def is_cart_row_def)
  have is_row: "is_cart_row u r (row v)" for v by (simp add: row_def is_cart_row_def)
  have bump: "(row v)\<lparr>cart_quantity := sql_add (cart_quantity (row v)) q2\<rparr> = row (sql_add v q2)" for v
    by (simp add: row_def)
  have up: "cart_upsert d1 u r q2 = Inr d2"
    using ex1 by (simp add: cart_upsert_def d1_def d2_def map_upd_absent [OF nex] is_row bump)
  have rex1: "record_exists d1 r" using assms(2) by (simp add: record_exists_def d1_def)
  have s2: "AddToCartHandler d1 u r q2 = (Inr ''Item added to cart'', d2)"
    using assms rex1 up by (simp add: AddToCartHandler_def)
  have q12: "cart_quantity_of d2 u r = Some (sql_add (INTEGER q1) q2)"
    using nex by (simp add: cart_quantity_of_def find_append_absent row_def is_cart_row_def d2_def)
  have "MinInt64 \<le> q1 + q2" using assms(4,5) by (simp add: MinInt64_def)
  then have same: "d2 = d12" if "q1 + q2 \<le> MaxInt64"
    using that by (simp add: d2_def d12_def sql_add_in_range)
  show ?thesis using same by (simp add: s1 s2 s12 q1 q12)
qed

text \<open>
  C1, as amended. Add accumulates as long as the sum fits into 64 bits. For a user \<open>u\<close>
  of the store, an existing record \<open>r\<close> (record keys are positive) and quantities
  \<open>q1, q2 \<ge> 1\<close> (Go \<^verbatim>\<open>int\<close>s, so at most \<open>2^63 - 1\<close>): on an absent pair \<open>(u, r)\<close>, Add of \<open>q1\<close> makes it present with \<open>q1\<close>; if
  \<open>q1 + q2\<close> is at most \<open>2^63 - 1\<close>, a following Add of \<open>q2\<close> makes it present with
  \<open>q1 + q2\<close>, both succeed, and the store they leave is exactly the store that a single
  Add of \<open>q1 + q2\<close> leaves. On a pair present with a 64-bit integer \<open>q\<close>, Add of \<open>q1\<close>
  succeeds; it makes the pair present with \<open>q + q1\<close> if that is at most \<open>2^63 - 1\<close>, and
  otherwise leaves a quantity that is no integer any more.
\<close>

theorem add_to_cart_accumulates:
  assumes "u \<in> set (users d)" and "record_exists d r" and "0 < r"
    and "1 \<le> q1" and "1 \<le> q2" and "q1 \<le> MaxInt64" and "q2 \<le> MaxInt64"
  shows "(cart_quantity_of d u r = None \<longrightarrow>
           fst (AddToCartHandler d u r q1) = Inr ''Item added to cart''
         \<and> cart_quantity_of (snd (AddToCartHandler d u r q1)) u r = Some (INTEGER q1))
       \<and> (cart_quantity_of d u r = None \<and> q1 + q2 \<le> MaxInt64 \<longrightarrow>
           fst (AddToCartHandler (snd (AddToCartHandler d u r q1)) u r q2) = Inr ''Item added to cart''
         \<and> cart_quantity_of (snd (AddToCartHandler (snd (AddToCartHandler d u r q1)) u r q2)) u r
             = Some (INTEGER (q1 + q2))
         \<and> snd (AddToCartHandler (snd (AddToCartHandler d u r q1)) u r q2)
             = snd (AddToCartHandler d u r (q1 + q2)))
       \<and> (\<forall>q. cart_quantity_of d u r = Some (INTEGER q) \<and> MinInt64 \<le> q \<and> q + q1 \<le> MaxInt64 \<longrightarrow>
           fst (AddToCartHandler d u r q1) = Inr ''Item added to cart''
         \<and> cart_quantity_of (snd (AddToCartHandler d u r q1)) u r = Some (INTEGER (q + q1)))
       \<and> (\<forall>q. cart_quantity_of d u r = Some (INTEGER q) \<and> MaxInt64 < q + q1 \<longrightarrow>
           fst (AddToCartHandler d u r q1) = Inr ''Item added to cart''
         \<and> cart_quantity_of (snd (AddToCartHandler d u r q1)) u r = Some REAL)"
proof (intro conjI allI impI)
  assume "cart_quantity_of d u r = None"
  then show "fst (AddToCartHandler d u r q1) = Inr ''Item added to cart''"
    and "cart_quantity_of (snd (AddToCartHandler d u r q1)) u r = Some (INTEGER q1)"
    using add_absent_twice [OF assms(1-5)] by simp_all
next
  assume h: "cart_quantity_of d u r = None \<and> q1 + q2 \<le> MaxInt64"
  have "MinInt64 \<le> q1 + q2" using assms(4,5) by (simp add: MinInt64_def)
  with h have eq: "sql_add (INTEGER q1) q2 = INTEGER (q1 + q2)" by (simp add: sql_add_in_range)
  from h add_absent_twice [OF assms(1-5)] have
    A: "fst (AddToCartHandler (snd (AddToCartHandler d u r q1)) u r q2) = Inr ''Item added to cart''"
    and B: "cart_quantity_of (snd (AddToCartHandler (snd (AddToCartHandler d u r q1)) u r q2)) u r
           = Some (sql_add (INTEGER q1) q2)"
    and C: "snd (AddToCartHandler (snd (AddToCartHandler d u r q1)) u r q2)
           = snd (AddToCartHandler d u r (q1 + q2))"
    by blast+
  show
    "fst (AddToCartHandler (snd (AddToCartHandler d u r q1)) u r q2) = Inr ''Item added to cart''"
    by (rule A)
  show "cart_quantity_of (snd (AddToCartHandler (snd (AddToCartHandler d u r q1)) u r q2)) u r
           = Some (INTEGER (q1 + q2))"
    using B by (simp only: eq)
  show "snd (AddToCartHandler (snd (AddToCartHandler d u r q1)) u r q2)
           = snd (AddToCartHandler d u r (q1 + q2))"
    by (rule C)
next
  fix q
  assume h: "cart_quantity_of d u r = Some (INTEGER q) \<and> MinInt64 \<le> q \<and> q + q1 \<le> MaxInt64"
  with assms(4) have "sql_add (INTEGER q) q1 = INTEGER (q + q1)" by (simp add: sql_add_in_range)
  with h show "fst (AddToCartHandler d u r q1) = Inr ''Item added to cart''"
    and "cart_quantity_of (snd (AddToCartHandler d u r q1)) u r = Some (INTEGER (q + q1))"
    using add_present [OF assms(2,3,4), of u "INTEGER q"] by simp_all
next
  fix q
  assume h: "cart_quantity_of d u r = Some (INTEGER q) \<and> MaxInt64 < q + q1"
  then have "sql_add (INTEGER q) q1 = REAL" by (simp add: sql_add_overflow)
  with h show "fst (AddToCartHandler d u r q1) = Inr ''Item added to cart''"
    and "cart_quantity_of (snd (AddToCartHandler d u r q1)) u r = Some REAL"
    using add_present [OF assms(2,3,4), of u "INTEGER q"] by simp_all
qed

text \<open>The definitions a concrete store is evaluated with.\<close>

lemmas ex_defs = example_store_def example_record_def record_exists_def cart_quantity_of_def is_cart_row_def

theorem add_to_cart_accumulates_witness:
  "1 \<in> set (users example_store) \<and> record_exists example_store 5
   \<and> cart_quantity_of example_store 1 5 = None
   \<and> cart_quantity_of (snd (AddToCartHandler (snd (AddToCartHandler example_store 1 5 2)) 1 5 3)) 1 5
       = Some (INTEGER 5)
   \<and> snd (AddToCartHandler (snd (AddToCartHandler example_store 1 5 2)) 1 5 3)
       = snd (AddToCartHandler example_store 1 5 5)
   \<and> 2 \<in> set (users example_store) \<and> record_exists example_store 6
   \<and> cart_quantity_of example_store 2 6 = Some (INTEGER 1)
   \<and> cart_quantity_of (snd (AddToCartHandler example_store 2 6 2)) 2 6 = Some (INTEGER 3)
   \<and> cart_quantity_of (snd (AddToCartHandler example_store 2 6 9223372036854775807)) 2 6 = Some REAL"
proof -
  have h1: "1 \<in> set (users example_store)" "record_exists example_store 5"
    "cart_quantity_of example_store 1 5 = None"
    by (simp_all add: ex_defs)
  have h2: "2 \<in> set (users example_store)" "record_exists example_store 6"
    "cart_quantity_of example_store 2 6 = Some (INTEGER 1)"
    by (simp_all add: ex_defs)
  show ?thesis
    using h1 h2 add_to_cart_accumulates [OF h1(1,2), of 2 3]
      add_to_cart_accumulates [OF h2(1,2), of 2 1]
      add_to_cart_accumulates [OF h2(1,2), of 9223372036854775807 1]
    by (auto simp: MaxInt64_def MinInt64_def)
qed

text \<open>
  C1 as stated fails where the sum leaves the 64-bit range. User 1 adds \<open>2^63 - 1\<close>
  copies of record 5 and then one more. Both requests are answered with success, and the
  pair is then present with a quantity that is not the integer \<open>2^63\<close>; the listing of
  that cart skips the row.
\<close>

theorem add_to_cart_overflow_counterexample:
  "cart_quantity_of example_store 1 5 = None
   \<and> fst (AddToCartHandler example_store 1 5 9223372036854775807) = Inr ''Item added to cart''
   \<and> fst (AddToCartHandler (snd (AddToCartHandler example_store 1 5 9223372036854775807)) 1 5 1)
       = Inr ''Item added to cart''
   \<and> cart_quantity_of
       (snd (AddToCartHandler (snd (AddToCartHandler example_store 1 5 9223372036854775807)) 1 5 1))
       1 5 = Some REAL
   \<and> cart_quantity_of
       (snd (AddToCartHandler (snd (AddToCartHandler example_store 1 5 9223372036854775807)) 1 5 1))
       1 5 \<noteq> Some (INTEGER (9223372036854775807 + 1))
   \<and> snd (AddToCartHandler (snd (AddToCartHandler example_store 1 5 9223372036854775807)) 1 5 1)
       = overflown_store
   \<and> GetCartHandler overflown_store 1 = (Inr [], [Error_scanning_cart_item_row])"
  by (simp add: ex_defs AddToCartHandler_def cart_upsert_def sql_add_def MaxInt64_def MinInt64_def
        overflown_store_def GetCartHandler_def select_cart_items_def scan_cart_items_def
        scan_cart_errors_def scan_cart_item_def List.map_filter_simps distinct_ids_def)

section \<open>Properties of the cart: explicit set\<close>

lemma filter_none: "\<not> list_ex P xs \<Longrightarrow> filter P xs = []"
  by (induction xs) auto

lemma filter_not_none: "\<not> list_ex P xs \<Longrightarrow> filter (\<lambda>x. \<not> P x) xs = xs"
  by (induction xs) auto

lemma filter_some: "list_ex P xs \<Longrightarrow> filter P xs \<noteq> []"
  by (induction xs) auto

lemma find_filter_not: "find P (filter (\<lambda>x. \<not> P x) xs) = None"
  by (induction xs) auto

lemma find_map_set_quantity:
  "find (is_cart_row u r) (map (\<lambda>c. if is_cart_row u r c then c\<lparr>cart_quantity := v\<rparr> else c) xs)
     = map_option (\<lambda>c. c\<lparr>cart_quantity := v\<rparr>) (find (is_cart_row u r) xs)"
  by (induction xs) (auto simp: is_cart_row_def)

lemma absent_iff: "cart_quantity_of d u r = None \<longleftrightarrow> \<not> list_ex (is_cart_row u r) (cart_items d)"
  by (simp add: cart_quantity_of_def find_None_list_ex)

lemma present_ex:
  assumes "cart_quantity_of d u r \<noteq> None"
  shows "list_ex (is_cart_row u r) (cart_items d)"
proof (rule ccontr)
  assume "\<not> list_ex (is_cart_row u r) (cart_items d)"
  then have "cart_quantity_of d u r = None" by (simp add: absent_iff)
  with assms show False by contradiction
qed

lemma select_stock_None: "select_stock d r = None \<longleftrightarrow> \<not> record_exists d r"
  by (auto simp: select_stock_def find_None_list_ex record_exists_def list_ex_iff)

lemma set_zero_present:
  assumes "0 < r" "cart_quantity_of d u r \<noteq> None"
  shows "fst (UpdateCartHandler d u r 0) = Inr ''Item removed from cart''
       \<and> cart_quantity_of (snd (UpdateCartHandler d u r 0)) u r = None"
proof -
  from assms(2) have "list_ex (is_cart_row u r) (cart_items d)"
    by (rule present_ex)
  then have "filter (is_cart_row u r) (cart_items d) \<noteq> []"
    by (rule filter_some)
  with assms(1) show ?thesis
    by (simp add: UpdateCartHandler_def cart_delete_def cart_quantity_of_def find_filter_not)
qed

lemma set_positive_present:
  assumes "0 < r" "0 < q" "cart_quantity_of d u r \<noteq> None" "record_exists d r"
  shows "fst (UpdateCartHandler d u r q) = Inr ''Cart item quantity updated''
       \<and> cart_quantity_of (snd (UpdateCartHandler d u r q)) u r = Some (INTEGER q)"
proof -
  from assms(4) obtain s where s: "select_stock d r = Some s"
    using select_stock_None [of d r] by (cases "select_stock d r") auto
  from assms(3) have ex: "list_ex (is_cart_row u r) (cart_items d)"
    by (rule present_ex)
  from assms(3) obtain c where c: "find (is_cart_row u r) (cart_items d) = Some c"
    by (auto simp: cart_quantity_of_def)
  show ?thesis
    using assms(1,2) s filter_some [OF ex] c
    by (simp add: UpdateCartHandler_def cart_update_def cart_quantity_of_def find_map_set_quantity)
qed

lemma set_absent:
  assumes "0 < r" "0 \<le> q" "cart_quantity_of d u r = None"
  shows "(\<exists>m. fst (UpdateCartHandler d u r q) = Inl (StatusNotFound m))
       \<and> snd (UpdateCartHandler d u r q) = d"
proof -
  from assms(3) have nex: "\<not> list_ex (is_cart_row u r) (cart_items d)"
    by (simp add: absent_iff)
  show ?thesis
    using assms(1,2) filter_none [OF nex] filter_not_none [OF nex] map_upd_absent [OF nex]
    by (cases "select_stock d r")
       (auto simp: UpdateCartHandler_def cart_delete_def cart_update_def)
qed

lemma set_record_missing:
  assumes "0 < r" "0 < q" "\<not> record_exists d r"
  shows "fst (UpdateCartHandler d u r q) = Inl (StatusNotFound ''Record not found'')
       \<and> snd (UpdateCartHandler d u r q) = d"
proof -
  from assms(3) have "select_stock d r = None" by (simp add: select_stock_None)
  with assms(1,2) show ?thesis by (simp add: UpdateCartHandler_def)
qed

text \<open>
  C4. Set. For a record key \<open>r\<close> (keys are positive) and a quantity \<open>q \<ge> 0\<close>: with
  \<open>q = 0\<close> on a present pair the row is deleted; with \<open>q > 0\<close> on a present pair whose
  record exists the stored quantity becomes \<open>q\<close>, whatever it was; on an absent pair the
  answer is a not-found error and the store is left as it was, so no row is created; and
  with \<open>q > 0\<close> a record that does not exist is answered with the not-found error
  ``Record not found'', again with the store unchanged.
\<close>

theorem update_cart_sets_quantity:
  assumes "0 < r" and "0 \<le> q"
  shows "(q = 0 \<and> cart_quantity_of d u r \<noteq> None \<longrightarrow>
            fst (UpdateCartHandler d u r q) = Inr ''Item removed from cart''
          \<and> cart_quantity_of (snd (UpdateCartHandler d u r q)) u r = None)
       \<and> (0 < q \<and> cart_quantity_of d u r \<noteq> None \<and> record_exists d r \<longrightarrow>
            fst (UpdateCartHandler d u r q) = Inr ''Cart item quantity updated''
          \<and> cart_quantity_of (snd (UpdateCartHandler d u r q)) u r = Some (INTEGER q))
       \<and> (cart_quantity_of d u r = None \<longrightarrow>
            (\<exists>m. fst (UpdateCartHandler d u r q) = Inl (StatusNotFound m))
          \<and> snd (UpdateCartHandler d u r q) = d)
       \<and> (0 < q \<and> \<not> record_exists d r \<longrightarrow>
            fst (UpdateCartHandler d u r q) = Inl (StatusNotFound ''Record not found'')
          \<and> snd (UpdateCartHandler d u r q) = d)"
proof (intro conjI impI)
  assume "q = 0 \<and> cart_quantity_of d u r \<noteq> None"
  then show "fst (UpdateCartHandler d u r q) = Inr ''Item removed from cart''"
    and "cart_quantity_of (snd (UpdateCartHandler d u r q)) u r = None"
    using set_zero_present [OF assms(1), of d u] by simp_all
next
  assume "0 < q \<and> cart_quantity_of d u r \<noteq> None \<and> record_exists d r"
  then show "fst (UpdateCartHandler d u r q) = Inr ''Cart item quantity updated''"
    and "cart_quantity_of (snd (UpdateCartHandler d u r q)) u r = Some (INTEGER q)"
    using set_positive_present [OF assms(1), of q d u] by simp_all
next
  assume "cart_quantity_of d u r = None"
  then show "\<exists>m. fst (UpdateCartHandler d u r q) = Inl (StatusNotFound m)"
    and "snd (UpdateCartHandler d u r q) = d"
    using set_absent [OF assms, of d u] by simp_all
next
  assume "0 < q \<and> \<not> record_exists d r"
  then show "fst (UpdateCartHandler d u r q) = Inl (StatusNotFound ''Record not found'')"
    and "snd (UpdateCartHandler d u r q) = d"
    using set_record_missing [OF assms(1), of q d u] by simp_all
qed

theorem update_cart_sets_quantity_witness:
  "cart_quantity_of example_store 2 6 = Some (INTEGER 1)
   \<and> cart_quantity_of (snd (UpdateCartHandler example_store 2 6 0)) 2 6 = None
   \<and> record_exists example_store 6
   \<and> cart_quantity_of (snd (UpdateCartHandler example_store 2 6 4)) 2 6 = Some (INTEGER 4)
   \<and> cart_quantity_of example_store 1 6 = None
   \<and> (\<exists>m. fst (UpdateCartHandler example_store 1 6 4) = Inl (StatusNotFound m))
   \<and> snd (UpdateCartHandler example_store 1 6 4) = example_store
   \<and> \<not> record_exists example_store 7
   \<and> fst (UpdateCartHandler example_store 2 7 4) = Inl (StatusNotFound ''Record not found'')"
proof -
  have h: "cart_quantity_of example_store 2 6 = Some (INTEGER 1)" "record_exists example_store 6"
    "cart_quantity_of example_store 1 6 = None" "\<not> record_exists example_store 7"
    by (simp_all add: ex_defs)
  show ?thesis
    using h update_cart_sets_quantity [of 6 0 example_store 2]
      update_cart_sets_quantity [of 6 4 example_store 2]
      update_cart_sets_quantity [of 6 4 example_store 1]
      update_cart_sets_quantity [of 7 4 example_store 2]
    by auto
qed

section \<open>Properties of the cart: stock\<close>

lemma with_stock_ids [simp]: "map rec_id (records (with_stock f d)) = map rec_id (records d)"
  by (simp add: with_stock_def comp_def)

lemma with_stock_exists [simp]: "record_exists (with_stock f d) r = record_exists d r"
  by (simp add: record_exists_def)

lemma with_stock_cart [simp]:
  "cart_items (with_stock f d) = cart_items d" "users (with_stock f d) = users d"
  "foreign_keys (with_stock f d) = foreign_keys d"
  by (simp_all add: with_stock_def)

lemma with_stock_cart_upd:
  "with_stock f (d\<lparr>cart_items := xs\<rparr>) = (with_stock f d)\<lparr>cart_items := xs\<rparr>"
  by (simp add: with_stock_def)

lemma add_ignores_stock:
  "fst (AddToCartHandler (with_stock f d) u r q) = fst (AddToCartHandler d u r q)
   \<and> snd (AddToCartHandler (with_stock f d) u r q) = with_stock f (snd (AddToCartHandler d u r q))"
  by (simp add: AddToCartHandler_def cart_upsert_def with_stock_cart_upd)

lemma select_stock_with_stock:
  "(select_stock (with_stock f d) r = None) = (select_stock d r = None)"
  by (simp add: select_stock_None)

lemma update_ignores_stock:
  "fst (UpdateCartHandler (with_stock f d) u r q) = fst (UpdateCartHandler d u r q)
   \<and> snd (UpdateCartHandler (with_stock f d) u r q) = with_stock f (snd (UpdateCartHandler d u r q))"
  using select_stock_with_stock [of f d r]
  by (cases "select_stock d r"; cases "select_stock (with_stock f d) r")
     (auto simp: UpdateCartHandler_def cart_delete_def cart_update_def with_stock_cart_upd)

lemma remove_ignores_stock:
  "fst (RemoveFromCartHandler (with_stock f d) u r) = fst (RemoveFromCartHandler d u r)
   \<and> snd (RemoveFromCartHandler (with_stock f d) u r) = with_stock f (snd (RemoveFromCartHandler d u r))"
  by (auto simp: RemoveFromCartHandler_def cart_delete_def with_stock_cart_upd)

lemma add_keeps_records: "records (snd (AddToCartHandler d u r q)) = records d"
  by (auto simp: AddToCartHandler_def cart_upsert_def split: sum.splits if_splits)

lemma update_keeps_records: "records (snd (UpdateCartHandler d u r q)) = records d"
  by (auto simp: UpdateCartHandler_def cart_delete_def cart_update_def split: option.splits)

lemma remove_keeps_records: "records (snd (RemoveFromCartHandler d u r)) = records d"
  by (auto simp: RemoveFromCartHandler_def cart_delete_def)

lemma add_succeeds:
  assumes "u \<in> set (users d)" "record_exists d r" "0 < r" "1 \<le> q"
  shows "fst (AddToCartHandler d u r q) = Inr ''Item added to cart''"
  using assms by (simp add: AddToCartHandler_def cart_upsert_def)

text \<open>
  C10. The cart does not depend on stock. For a user of the store, an existing record
  \<open>r\<close> and \<open>q \<ge> 1\<close>: Add succeeds, and Set succeeds on a present pair and stores \<open>q\<close>,
  whatever the record's stock is, so also when \<open>q\<close> exceeds it; replacing the stock of
  every record by any other values changes neither the response of Add, Set or Remove
  nor what they do to the store; and Add, Set and Remove leave the \<^verbatim>\<open>records\<close> table as
  it was. (\<open>GetCartHandler\<close> only reads: it returns no store.)
\<close>

theorem cart_ignores_stock:
  assumes "u \<in> set (users d)" and "record_exists d r" and "0 < r" and "1 \<le> q"
  shows "fst (AddToCartHandler d u r q) = Inr ''Item added to cart''
       \<and> (cart_quantity_of d u r \<noteq> None \<longrightarrow>
            fst (UpdateCartHandler d u r q) = Inr ''Cart item quantity updated''
          \<and> cart_quantity_of (snd (UpdateCartHandler d u r q)) u r = Some (INTEGER q))
       \<and> (\<forall>f. fst (AddToCartHandler (with_stock f d) u r q) = fst (AddToCartHandler d u r q)
             \<and> snd (AddToCartHandler (with_stock f d) u r q)
                 = with_stock f (snd (AddToCartHandler d u r q))
             \<and> fst (UpdateCartHandler (with_stock f d) u r q) = fst (UpdateCartHandler d u r q)
             \<and> snd (UpdateCartHandler (with_stock f d) u r q)
                 = with_stock f (snd (UpdateCartHandler d u r q))
             \<and> fst (RemoveFromCartHandler (with_stock f d) u r) = fst (RemoveFromCartHandler d u r)
             \<and> snd (RemoveFromCartHandler (with_stock f d) u r)
                 = with_stock f (snd (RemoveFromCartHandler d u r)))
       \<and> records (snd (AddToCartHandler d u r q)) = records d
       \<and> records (snd (UpdateCartHandler d u r q)) = records d
       \<and> records (snd (RemoveFromCartHandler d u r)) = records d"
proof -
  have "0 < q" using assms(4) by simp
  then show ?thesis
    using add_succeeds [OF assms] set_positive_present [OF assms(3), of q d u] assms(2)
      add_ignores_stock update_ignores_stock remove_ignores_stock
      add_keeps_records update_keeps_records remove_keeps_records
    by simp
qed

theorem cart_ignores_stock_witness:
  "2 \<in> set (users example_store) \<and> record_exists example_store 6
   \<and> select_stock example_store 6 = Some 3
   \<and> cart_quantity_of example_store 2 6 = Some (INTEGER 1)
   \<and> fst (AddToCartHandler example_store 2 6 9) = Inr ''Item added to cart''
   \<and> fst (UpdateCartHandler example_store 2 6 9) = Inr ''Cart item quantity updated''
   \<and> cart_quantity_of (snd (UpdateCartHandler example_store 2 6 9)) 2 6 = Some (INTEGER 9)
   \<and> records (snd (UpdateCartHandler example_store 2 6 9)) = records example_store"
proof -
  have h: "2 \<in> set (users example_store)" "record_exists example_store 6"
    "select_stock example_store 6 = Some 3" "cart_quantity_of example_store 2 6 = Some (INTEGER 1)"
    by (simp_all add: ex_defs select_stock_def)
  show ?thesis
    using h cart_ignores_stock [OF h(1,2), of 9] by simp
qed

section \<open>The statement texts\<close>

lemma last_markers: "last (pre @ [CHR ''?''] @ Repeat '',?'' k) = CHR ''?''"
proof (induction k arbitrary: pre)
  case 0
  show ?case by (simp add: Repeat_def)
next
  case (Suc k)
  have "pre @ [CHR ''?''] @ Repeat '',?'' (Suc k) = (pre @ ''?,'') @ [CHR ''?''] @ Repeat '',?'' k"
    by (simp add: Repeat_def)
  then show ?case using Suc.IH [of "pre @ ''?,''"] by simp
qed

lemma bind_markers_last2: "last (butlast (bind_markers n)) = CHR ''?''"
proof -
  have "butlast (bind_markers n) = ''('' @ [CHR ''?''] @ Repeat '',?'' (n - 1)"
    by (simp add: bind_markers_def butlast_append)
  then show ?thesis using last_markers [of "''(''" "n - 1"] by simp
qed

lemma suffix_last2:
  assumes "suffix xs ys" "2 \<le> length xs"
  shows "last (butlast ys) = last (butlast xs)"
proof -
  from assms(1) obtain zs where ys: "ys = zs @ xs" by (auto simp: suffix_def)
  from assms(2) have "xs \<noteq> []" "butlast xs \<noteq> []" by (cases xs; cases "tl xs"; auto)+
  then show ?thesis by (simp add: ys butlast_append)
qed

lemma bind_markers_length: "2 \<le> length (bind_markers n)"
  by (simp add: bind_markers_def)

lemma tracks_query_last2: "last (butlast (tracks_query ids)) = CHR 0x22"
  by code_simp

lemma cart_tracks_query_last2: "last (butlast (cart_tracks_query ids)) = CHR 0x22"
  by code_simp

lemma tracks_query_refused: "\<not> IN_list_ok (tracks_query ids) args"
  using suffix_last2 [OF _ bind_markers_length, of "length args" "tracks_query ids"]
  by (auto simp: IN_list_ok_def tracks_query_last2 bind_markers_last2)

lemma cart_tracks_query_refused: "\<not> IN_list_ok (cart_tracks_query ids) args"
  using suffix_last2 [OF _ bind_markers_length, of "length args" "cart_tracks_query ids"]
  by (auto simp: IN_list_ok_def cart_tracks_query_last2 bind_markers_last2)

lemma record_tracks_query_accepted: "ids \<noteq> [] \<Longrightarrow> IN_list_ok (record_tracks_query ids) ids"
proof -
  have "record_tracks_query ids
          = ''SELECT record_id, track_id FROM record_tracks WHERE record_id IN '' @ bind_markers (length ids)"
    by (simp add: record_tracks_query_def bind_markers_def)
  then show "ids \<noteq> [] \<Longrightarrow> IN_list_ok (record_tracks_query ids) ids"
    by (simp add: IN_list_ok_def suffix_def)
qed

lemma records_query_accepted: "ids \<noteq> [] \<Longrightarrow> IN_list_ok (records_query ids) ids"
proof -
  have "records_query ids
          = ''SELECT id, title, label, wholesale_address, wholesale_price, retail_price, release_date, sold_last_year, sold_current_year, stock FROM records WHERE id IN '' @ bind_markers (length ids)"
    by (simp add: records_query_def bind_markers_def)
  then show "ids \<noteq> [] \<Longrightarrow> IN_list_ok (records_query ids) ids"
    by (simp add: IN_list_ok_def suffix_def)
qed

section \<open>Properties of the catalog aggregation\<close>

lemma collect_links_None:
  "fst (collect_links rows (m, ids)) k = None \<longleftrightarrow> m k = None \<and> k \<notin> fst ` set rows"
proof (induction rows arbitrary: m ids)
  case Nil
  show ?case by simp
next
  case (Cons row rows)
  obtain a b where row: "row = (a, b)" by (cases row)
  show ?case unfolding row by (auto simp: Cons.IH)
qed

lemma attach_tracks_row: "Record_row (attach_tracks links tm r) = Record_row r"
  by (simp add: attach_tracks_def split: option.splits)

lemma attach_tracks_not_nil: "Record_Tracks (attach_tracks links tm r) \<noteq> None"
  by (simp add: attach_tracks_def split: option.splits)

lemma attach_tracks_unlinked:
  "links (rec_id (Record_row r)) = None \<Longrightarrow> Record_Tracks (attach_tracks links tm r) = Some []"
  by (simp add: attach_tracks_def)

lemma assemble_records_rows:
  "map Record_row (fst (assemble_records links tm rs)) = map Record_row rs"
  by (simp add: assemble_records_def comp_def attach_tracks_row)

lemma assemble_records_tracks:
  assumes "r \<in> set (fst (assemble_records links tm rs))"
  shows "Record_Tracks r \<noteq> None \<and> (links (rec_id (Record_row r)) = None \<longrightarrow> Record_Tracks r = Some [])"
proof -
  from assms obtain r0 where r: "r = attach_tracks links tm r0"
    by (auto simp: assemble_records_def)
  have "Record_row r = Record_row r0" by (simp add: r attach_tracks_row)
  then show ?thesis
    using attach_tracks_not_nil [of links tm r0] attach_tracks_unlinked [of links r0 tm]
    by (simp add: r)
qed

lemma scan_record_row: "map (Record_row \<circ> scan_record) xs = xs"
  by (induction xs) (simp_all add: scan_record_def)

lemma catalog_ok:
  assumes ok: "GetRecordsHandler d = (Inr rs', l)"
  shows "map Record_row rs' = records d
       \<and> (\<forall>r \<in> set rs'. Record_Tracks r \<noteq> None
            \<and> ((\<forall>t. (rec_id (Record_row r), t) \<notin> set (record_tracks d)) \<longrightarrow> Record_Tracks r = Some []))"
proof (cases "records d = []")
  case True
  with ok have "rs' = []" by (simp add: GetRecordsHandler_def)
  with True show ?thesis by simp
next
  case False
  define rs where "rs = map scan_record (records d)"
  define recordIDs where "recordIDs = map (\<lambda>r. rec_id (Record_row r)) rs"
  define rows where "rows = filter (\<lambda>(record_id, track_id). record_id \<in> set recordIDs) (record_tracks d)"
  define links where "links = collect_links rows (Map.empty, [])"
  have ids: "recordIDs = map rec_id (records d)"
    by (simp add: recordIDs_def rs_def comp_def scan_record_def)
  have ne: "rs \<noteq> []" using False by (simp add: rs_def)
  have acc: "select_record_tracks d (record_tracks_query recordIDs) recordIDs = Inr rows"
    using False record_tracks_query_accepted [of recordIDs]
    by (simp add: select_record_tracks_def rows_def ids)
  have step: "GetRecordsHandler d =
      (if snd links = [] then (Inr (map (\<lambda>r. r\<lparr>Record_Tracks := Some []\<rparr>) rs), [])
       else (case select_tracks_joined d (tracks_query (snd links)) (snd links) of
               Inl e \<Rightarrow> (Inl (StatusInternalServerError ''Database error fetching tracks''), [])
             | Inr trackRows \<Rightarrow>
                 (case assemble_records (fst links) (scan_tracks trackRows) rs of
                    (rs', warnings) \<Rightarrow> (Inr rs', warnings))))"
    using ne acc
    by (simp add: GetRecordsHandler_def Let_def rs_def [symmetric] recordIDs_def [symmetric]
          links_def [symmetric])
  show ?thesis
  proof (cases "snd links = []")
    case True
    with ok step have "rs' = map (\<lambda>r. r\<lparr>Record_Tracks := Some []\<rparr>) rs" by simp
    then show ?thesis by (simp add: rs_def comp_def scan_record_def)
  next
    case nonempty: False
    show ?thesis
    proof (cases "select_tracks_joined d (tracks_query (snd links)) (snd links)")
      case (Inl e)
      with ok step nonempty show ?thesis by simp
    next
      case (Inr trackRows)
      with ok step nonempty
      have rs': "rs' = fst (assemble_records (fst links) (scan_tracks trackRows) rs)"
        by (simp split: prod.splits)
      have rows_eq: "map Record_row rs' = records d"
        by (simp add: rs' assemble_records_rows rs_def scan_record_row)
      have "Record_Tracks r \<noteq> None
            \<and> ((\<forall>t. (rec_id (Record_row r), t) \<notin> set (record_tracks d)) \<longrightarrow> Record_Tracks r = Some [])"
        if r: "r \<in> set rs'" for r
      proof -
        have "(\<forall>t. (rec_id (Record_row r), t) \<notin> set (record_tracks d))
                \<Longrightarrow> fst links (rec_id (Record_row r)) = None"
          by (force simp: links_def collect_links_None rows_def)
        then show ?thesis
          using assemble_records_tracks [of r "fst links" "scan_tracks trackRows" rs] r
          by (auto simp: rs')
      qed
      with rows_eq show ?thesis by blast
    qed
  qed
qed

lemma collect_links_ids:
  "set (snd (collect_links rows (m, ids))) = set ids \<union> snd ` set rows"
proof (induction rows arbitrary: m ids)
  case Nil
  show ?case by simp
next
  case (Cons row rows)
  obtain a b where row: "row = (a, b)" by (cases row)
  show ?case unfolding row by (auto simp: Cons.IH split: if_splits)
qed

lemma catalog_fails_when_linked:
  assumes "(r, t) \<in> set (record_tracks d)" and "r \<in> rec_id ` set (records d)"
  shows "GetRecordsHandler d = (Inl (StatusInternalServerError ''Database error fetching tracks''), [])"
proof -
  define ids where "ids = map rec_id (records d)"
  define rows where "rows = filter (\<lambda>(record_id, track_id). record_id \<in> set ids) (record_tracks d)"
  from assms(2) have ne: "records d \<noteq> []" by auto
  then have idsne: "ids \<noteq> []" by (simp add: ids_def)
  have acc: "select_record_tracks d (record_tracks_query ids) ids = Inr rows"
    using record_tracks_query_accepted [OF idsne] by (simp add: select_record_tracks_def rows_def)
  from assms have "(r, t) \<in> set rows" by (simp add: rows_def ids_def)
  then have "t \<in> set (snd (collect_links rows (Map.empty, [])))"
    by (force simp: collect_links_ids)
  then have tne: "snd (collect_links rows (Map.empty, [])) \<noteq> []" by auto
  show ?thesis
    using ne acc tne
    by (simp add: GetRecordsHandler_def Let_def comp_def scan_record_def ids_def [symmetric]
          select_tracks_joined_def tracks_query_refused)
qed

text \<open>
  C2. The claim is that the fetch of the tracks with their owners never replaces the
  whole catalog response by an error once a record has a linked track. On the store with
  two records and one track linked to the first, \<open>GetRecordsHandler\<close> answers with the
  error ``Database error fetching tracks'' and returns no record: the text of that query
  is a raw string literal that still contains the Go expression meant to build the
  marker list (\<open>tracks_query_refused\<close>), and by \<open>catalog_fails_when_linked\<close> the same happens
  in every store in which a record has a linked track.
\<close>

theorem catalog_with_linked_track_is_an_error:
  "GetRecordsHandler single_link_store
     = (Inl (StatusInternalServerError ''Database error fetching tracks''), [])"
proof (rule catalog_fails_when_linked)
  show "(5, 1) \<in> set (record_tracks single_link_store)"
    by (simp add: single_link_store_def)
  show "5 \<in> rec_id ` set (records single_link_store)"
    by (simp add: single_link_store_def example_store_def example_record_def)
qed

text \<open>
  C3. Step 4 keeps the records. For any fetched records, links and resolved tracks, the
  assembled list holds the same rows in the same order, every record in it has a
  \<^verbatim>\<open>Tracks\<close> slice that is not \<^verbatim>\<open>nil\<close>, and the slice is empty for a record without links.
  The same holds of every list that \<open>GetRecordsHandler\<close> returns, on all of its paths (no
  record at all, no linked track at all, or the assembly of step 4): it holds exactly the
  rows of \<^verbatim>\<open>records\<close> in order, with a non-\<^verbatim>\<open>nil\<close> track slice each, empty for a record that
  no row of \<^verbatim>\<open>record_tracks\<close> mentions.
\<close>

theorem aggregation_keeps_records:
  "map Record_row (fst (assemble_records links tm rs)) = map Record_row rs
   \<and> (\<forall>r \<in> set (fst (assemble_records links tm rs)).
         Record_Tracks r \<noteq> None
       \<and> (links (rec_id (Record_row r)) = None \<longrightarrow> Record_Tracks r = Some []))
   \<and> (\<forall>rs' l. GetRecordsHandler d = (Inr rs', l) \<longrightarrow>
         map Record_row rs' = records d
       \<and> (\<forall>r \<in> set rs'.
             Record_Tracks r \<noteq> None
           \<and> ((\<forall>t. (rec_id (Record_row r), t) \<notin> set (record_tracks d))
                \<longrightarrow> Record_Tracks r = Some [])))"
  using assemble_records_rows [of links tm rs] assemble_records_tracks [of _ links tm rs]
    catalog_ok [of d]
  by blast

lemma unlinked_catalog:
  "GetRecordsHandler unlinked_store
     = (Inr [\<lparr>Record_row = example_record 5 ''Live Set'' 0, Record_Tracks = Some []\<rparr>,
             \<lparr>Record_row = example_record 6 ''Studio'' 3, Record_Tracks = Some []\<rparr>], [])"
proof -
  have "IN_list_ok (record_tracks_query [5, 6]) [5, 6]"
    by (rule record_tracks_query_accepted) simp
  then show ?thesis
    by (simp add: GetRecordsHandler_def unlinked_store_def example_store_def example_record_def
          scan_record_def select_record_tracks_def)
qed

text \<open>The catalog of the store without links, and step 4 on a link to a track that is missing.\<close>

theorem aggregation_keeps_records_witness:
  "GetRecordsHandler unlinked_store
     = (Inr [\<lparr>Record_row = example_record 5 ''Live Set'' 0, Record_Tracks = Some []\<rparr>,
             \<lparr>Record_row = example_record 6 ''Studio'' 3, Record_Tracks = Some []\<rparr>], [])
   \<and> records unlinked_store = [example_record 5 ''Live Set'' 0, example_record 6 ''Studio'' 3]
   \<and> map Record_row (fst (assemble_records [5 \<mapsto> [1, 9]]
        (scan_tracks (map (left_join example_store) (tracks example_store)))
        (map scan_record (records example_store)))) = records example_store
   \<and> map (map_option (map Track_Name) \<circ> Record_Tracks) (fst (assemble_records [5 \<mapsto> [1, 9]]
        (scan_tracks (map (left_join example_store) (tracks example_store)))
        (map scan_record (records example_store)))) = [Some [''Intro''], Some []]"
proof -
  have "map (map_option (map Track_Name) \<circ> Record_Tracks) (fst (assemble_records [5 \<mapsto> [1, 9]]
        (scan_tracks (map (left_join example_store) (tracks example_store)))
        (map scan_record (records example_store)))) = [Some [''Intro''], Some []]"
    by (simp add: assemble_records_def attach_tracks_def scan_tracks_def scan_track_def
          left_join_def scan_record_def example_store_def example_record_def List.map_filter_def)
  then show ?thesis
    using unlinked_catalog
      aggregation_keeps_records [of "[5 \<mapsto> [1, 9]]"
        "scan_tracks (map (left_join example_store) (tracks example_store))"
        "map scan_record (records example_store)" unlinked_store]
    by (simp add: scan_record_row unlinked_store_def)
qed

lemma scan_track_owner:
  "Track_MusicianID (scan_track j) = j_musician_id j
   \<and> Track_EnsembleID (scan_track j) = j_ensemble_id j
   \<and> (j_musician_id j = None \<longrightarrow> Track_MusicianName (scan_track j) = [])
   \<and> (j_ensemble_id j = None \<longrightarrow> Track_EnsembleName (scan_track j) = [])"
  by (simp add: scan_track_def Let_def split: option.splits)

lemma scan_track_musician_name:
  "j_musician_id j = Some i \<Longrightarrow>
     Track_MusicianName (scan_track j)
       = (if j_first_name j = None \<and> j_last_name j = None then ''Unknown Musician''
          else TrimSpace (String (j_first_name j) @ '' '' @ String (j_last_name j)))"
  by (auto simp: scan_track_def Let_def split: option.splits)

lemma scan_track_ensemble_name:
  "j_ensemble_id j = Some e \<Longrightarrow>
     Track_EnsembleName (scan_track j)
       = (case j_ensemble_name j of None \<Rightarrow> ''Unknown Ensemble'' | Some n \<Rightarrow> n)"
  by (simp add: scan_track_def Let_def split: option.splits)

text \<open>
  C8, as amended. For a track with a musician reference the display name is the
  placeholder ``Unknown Musician'' exactly when no musician row matches the reference (both
  name columns of the join are \<^verbatim>\<open>NULL\<close>); otherwise it is \<^verbatim>\<open>TrimSpace\<close> of first name, one
  space, last name, whatever that comes to. For a track with an ensemble reference it is
  the ensemble's stored name, or ``Unknown Ensemble'' when no ensemble row matches.
\<close>

theorem display_names:
  "(trk_musician_id t = Some i \<longrightarrow>
      Track_MusicianName (scan_track (left_join d t))
        = (case find (\<lambda>x. mus_id x = i) (musicians d) of
             None \<Rightarrow> ''Unknown Musician''
           | Some m \<Rightarrow> TrimSpace (mus_first_name m @ '' '' @ mus_last_name m)))
   \<and> (trk_ensemble_id t = Some e \<longrightarrow>
      Track_EnsembleName (scan_track (left_join d t))
        = (case find (\<lambda>x. ens_id x = e) (ensembles d) of
             None \<Rightarrow> ''Unknown Ensemble''
           | Some x \<Rightarrow> ens_name x))"
proof (intro conjI impI)
  assume m: "trk_musician_id t = Some i"
  then have "j_musician_id (left_join d t) = Some i" by (simp add: left_join_def Let_def)
  from scan_track_musician_name [OF this] m
  show "Track_MusicianName (scan_track (left_join d t))
        = (case find (\<lambda>x. mus_id x = i) (musicians d) of
             None \<Rightarrow> ''Unknown Musician''
           | Some m \<Rightarrow> TrimSpace (mus_first_name m @ '' '' @ mus_last_name m))"
    by (simp add: left_join_def Let_def String_def split: option.splits)
next
  assume e: "trk_ensemble_id t = Some e"
  then have "j_ensemble_id (left_join d t) = Some e" by (simp add: left_join_def Let_def)
  from scan_track_ensemble_name [OF this] e
  show "Track_EnsembleName (scan_track (left_join d t))
        = (case find (\<lambda>x. ens_id x = e) (ensembles d) of
             None \<Rightarrow> ''Unknown Ensemble''
           | Some x \<Rightarrow> ens_name x)"
    by (simp add: left_join_def Let_def split: option.splits)
qed

theorem display_names_witness:
  "Track_MusicianName (scan_track (left_join example_store
       \<lparr>trk_id = 2, trk_name = ''Solo'', trk_duration = 95,
        trk_musician_id = Some 1, trk_ensemble_id = None\<rparr>)) = ''Ann Lee''
   \<and> Track_EnsembleName (scan_track (left_join example_store
       \<lparr>trk_id = 1, trk_name = ''Intro'', trk_duration = 120,
        trk_musician_id = None, trk_ensemble_id = Some 1\<rparr>)) = ''Quartet A''
   \<and> Track_MusicianName (scan_track (left_join createTables nameless_track)) = ''Unknown Musician''"
proof -
  have t: "TrimSpace ''Ann Lee'' = ''Ann Lee''"
    by code_simp
  show ?thesis
    using t
      display_names [of "\<lparr>trk_id = 2, trk_name = ''Solo'', trk_duration = 95,
                 trk_musician_id = Some 1, trk_ensemble_id = None\<rparr>" 1 example_store 1]
      display_names [of "\<lparr>trk_id = 1, trk_name = ''Intro'', trk_duration = 120,
                 trk_musician_id = None, trk_ensemble_id = Some 1\<rparr>" 1 example_store 1]
      display_names [of nameless_track 1 createTables 1]
    by (simp add: example_store_def nameless_track_def createTables_def)
qed

text \<open>
  C8 as stated fails: a musician whose two names are empty strings gets the empty display
  name, not the placeholder.
\<close>

theorem display_name_counterexample:
  "trk_musician_id nameless_track = Some 1
   \<and> map mus_id (musicians nameless_store) = [1]
   \<and> map mus_first_name (musicians nameless_store) = ['''']
   \<and> map mus_last_name (musicians nameless_store) = ['''']
   \<and> Track_MusicianName (scan_track (left_join nameless_store nameless_track)) = ''''
   \<and> Track_MusicianName (scan_track (left_join nameless_store nameless_track)) \<noteq> ''Unknown Musician''
   \<and> GetAllTracksHandler nameless_store
       = Inr [\<lparr>Track_ID = 1, Track_Name = ''Solo'', Track_Duration = 95,
               Track_MusicianID = Some 1, Track_EnsembleID = None,
               Track_MusicianName = '''', Track_EnsembleName = ''''\<rparr>]"
proof -
  have t: "TrimSpace '' '' = ''''" by code_simp
  show ?thesis
    using t
    by (simp add: nameless_store_def nameless_track_def createTables_def left_join_def
          scan_track_def String_def GetAllTracksHandler_def)
qed

section \<open>Properties of the cart listing\<close>

lemma fold_distinct_set:
  "set (fold (\<lambda>i acc. if i \<in> set acc then acc else acc @ [i]) ids acc0) = set acc0 \<union> set ids"
  by (induction ids arbitrary: acc0) auto

lemma distinct_ids_set: "set (distinct_ids ids) = set ids"
  by (simp add: distinct_ids_def fold_distinct_set)









lemma scan_cart_items_Nil [simp]: "scan_cart_items [] = []"
  by (simp add: scan_cart_items_def List.map_filter_simps)

lemma scan_cart_items_Cons:
  "scan_cart_items (c # rows) =
     (case scan_cart_item c of None \<Rightarrow> scan_cart_items rows | Some i \<Rightarrow> i # scan_cart_items rows)"
  by (simp add: scan_cart_items_def List.map_filter_simps split: option.splits)

lemma scan_cart_items_set:
  "set (scan_cart_items rows) = {i. \<exists>c \<in> set rows. scan_cart_item c = Some i}"
  by (induction rows) (auto simp: scan_cart_items_Cons split: option.splits)

lemma scan_cart_item_Some:
  assumes "scan_cart_item c = Some i"
  shows "CartItem_Record i = None" and "CartItem_RecordID i = cart_record_id c"
  using assms by (auto simp: scan_cart_item_def split: sql_value.splits)



lemma cart_all_orphans:
  assumes "\<forall>c \<in> set (select_cart_items d u). \<not> record_exists d (cart_record_id c)"
  shows "GetCartHandler d u
           = (Inr (scan_cart_items (select_cart_items d u)),
              scan_cart_errors (select_cart_items d u))"
proof (cases "scan_cart_items (select_cart_items d u) = []")
  case True
  then show ?thesis by (simp add: GetCartHandler_def)
next
  case False
  define cartItems where "cartItems = scan_cart_items (select_cart_items d u)"
  define skipped where "skipped = scan_cart_errors (select_cart_items d u)"
  define recordIDs where "recordIDs = distinct_ids (map CartItem_RecordID cartItems)"
  have ne: "cartItems \<noteq> []" using False by (simp add: cartItems_def)
  have ids_set: "set recordIDs \<subseteq> cart_record_id ` set (select_cart_items d u)"
    using scan_cart_item_Some(2)
    by (force simp: recordIDs_def distinct_ids_set cartItems_def scan_cart_items_set)
  have "set recordIDs = CartItem_RecordID ` set cartItems"
    by (simp add: recordIDs_def distinct_ids_set)
  with ne have idsne: "recordIDs \<noteq> []" by auto
  have rows: "filter (\<lambda>x. rec_id x \<in> set recordIDs) (records d) = []"
    using assms ids_set by (force simp: filter_empty_conv record_exists_def)
  have acc: "select_records_in d (records_query recordIDs) recordIDs = Inr []"
    using records_query_accepted [OF idsne] rows by (simp add: select_records_in_def)
  have d0: "distinct_ids [] = []" by (simp add: distinct_ids_def)
  show ?thesis
    using ne acc
    by (simp add: GetCartHandler_def Let_def cartItems_def [symmetric] skipped_def [symmetric]
          recordIDs_def [symmetric] d0)
qed

lemma cart_fails_when_linked:
  assumes c: "c \<in> set (select_cart_items d u)"
    and q: "cart_quantity c = INTEGER q"
    and r: "record_exists d (cart_record_id c)"
    and t: "(cart_record_id c, t) \<in> set (record_tracks d)"
  shows "GetCartHandler d u
           = (Inl (StatusInternalServerError ''Database error fetching tracks for cart''),
              scan_cart_errors (select_cart_items d u))"
proof -
  define cartItems where "cartItems = scan_cart_items (select_cart_items d u)"
  define skipped where "skipped = scan_cart_errors (select_cart_items d u)"
  define recordIDs where "recordIDs = distinct_ids (map CartItem_RecordID cartItems)"
  define recordRows where "recordRows = filter (\<lambda>x. rec_id x \<in> set recordIDs) (records d)"
  define fetched where "fetched = distinct_ids (map rec_id recordRows)"
  define linkRows where
    "linkRows = filter (\<lambda>(record_id, track_id). record_id \<in> set fetched) (record_tracks d)"
  from q obtain i where i: "scan_cart_item c = Some i" "CartItem_RecordID i = cart_record_id c"
    by (simp add: scan_cart_item_def)
  with c have iin: "i \<in> set cartItems" by (auto simp: cartItems_def scan_cart_items_set)
  then have ne: "cartItems \<noteq> []" by auto
  have in_ids: "cart_record_id c \<in> set recordIDs"
    using iin i(2) by (force simp: recordIDs_def distinct_ids_set)
  then have idsne: "recordIDs \<noteq> []" by auto
  have acc: "select_records_in d (records_query recordIDs) recordIDs = Inr recordRows"
    using records_query_accepted [OF idsne] by (simp add: select_records_in_def recordRows_def)
  have in_fetched: "cart_record_id c \<in> set fetched"
    using r in_ids by (force simp: fetched_def distinct_ids_set recordRows_def record_exists_def)
  then have fne: "fetched \<noteq> []" by auto
  have acc2: "select_record_tracks d (record_tracks_query fetched) fetched = Inr linkRows"
    using record_tracks_query_accepted [OF fne]
    by (simp add: select_record_tracks_def linkRows_def)
  from t in_fetched have "(cart_record_id c, t) \<in> set linkRows" by (simp add: linkRows_def)
  then have "t \<in> set (snd (collect_links linkRows (Map.empty, [])))"
    by (force simp: collect_links_ids)
  then have tne: "snd (collect_links linkRows (Map.empty, [])) \<noteq> []" by auto
  show ?thesis
    using ne acc fne acc2 tne
    by (simp add: GetCartHandler_def Let_def cartItems_def [symmetric] skipped_def [symmetric]
          recordIDs_def [symmetric] fetched_def [symmetric] fetch_cart_tracks_def
          select_tracks_joined_def cart_tracks_query_refused)
qed






section \<open>Deleting a record\<close>

lemma delete_record_answer:
  assumes "record_exists d r" "0 < r"
  shows "fst (DeleteRecordHandler d r) = Inr ''Record deleted successfully''"
    and "snd (DeleteRecordHandler d r) = fst (delete_record d r)"
proof -
  from assms(1) have "list_ex (\<lambda>x. rec_id x = r) (records d)"
    by (auto simp: record_exists_def list_ex_iff)
  then have "filter (\<lambda>x. rec_id x = r) (records d) \<noteq> []" by (rule filter_some)
  with assms show "fst (DeleteRecordHandler d r) = Inr ''Record deleted successfully''"
    and "snd (DeleteRecordHandler d r) = fst (delete_record d r)"
    by (simp_all add: DeleteRecordHandler_def delete_record_def)
qed

text \<open>
  On a connection that has \<open>foreign_keys\<close> on, deleting an existing record removes the
  record, exactly the cart rows and exactly the association rows that reference it, and
  leaves the \<^verbatim>\<open>tracks\<close> table as it was.
\<close>

lemma delete_record_with_foreign_keys:
  assumes "foreign_keys d" and "record_exists d r" and "0 < r"
  shows "fst (DeleteRecordHandler d r) = Inr ''Record deleted successfully''
       \<and> \<not> record_exists (snd (DeleteRecordHandler d r)) r
       \<and> cart_items (snd (DeleteRecordHandler d r)) = filter (\<lambda>c. cart_record_id c \<noteq> r) (cart_items d)
       \<and> record_tracks (snd (DeleteRecordHandler d r)) = filter (\<lambda>l. fst l \<noteq> r) (record_tracks d)
       \<and> tracks (snd (DeleteRecordHandler d r)) = tracks d"
proof -
  have split_fst: "(\<lambda>(record_id, track_id). record_id \<noteq> r) = (\<lambda>l :: int \<times> int. fst l \<noteq> r)"
    by (simp add: fun_eq_iff split_beta)
  show ?thesis
    using assms delete_record_answer [OF assms(2,3)]
    by (auto simp: delete_record_def record_exists_def split_fst)
qed

text \<open>
  On a connection that has it off, which is what \<^verbatim>\<open>InitDB\<close> sets up for a plain file name,
  the same request removes the record and nothing else: every cart row and every
  association row that references the record stays.
\<close>

lemma delete_record_without_foreign_keys:
  assumes "\<not> foreign_keys d" and "record_exists d r" and "0 < r"
  shows "fst (DeleteRecordHandler d r) = Inr ''Record deleted successfully''
       \<and> \<not> record_exists (snd (DeleteRecordHandler d r)) r
       \<and> cart_items (snd (DeleteRecordHandler d r)) = cart_items d
       \<and> record_tracks (snd (DeleteRecordHandler d r)) = record_tracks d
       \<and> tracks (snd (DeleteRecordHandler d r)) = tracks d"
  using assms delete_record_answer [OF assms(2,3)]
  by (auto simp: delete_record_def record_exists_def)

lemma delete_musician_tracks:
  assumes "foreign_keys d" "m \<in> set (map mus_id (musicians d))"
  shows "tracks (delete_musician d m) = filter (\<lambda>t. trk_musician_id t \<noteq> Some m) (tracks d)"
  using assms by (simp add: delete_musician_def delete_tracks_where_def)

lemma delete_ensemble_tracks:
  assumes "foreign_keys d" "e \<in> set (map ens_id (ensembles d))"
  shows "tracks (delete_ensemble d e) = filter (\<lambda>t. trk_ensemble_id t \<noteq> Some e) (tracks d)"
  using assms by (simp add: delete_ensemble_def delete_tracks_where_def)

text \<open>
  C9. Deleting a record is to remove its cart rows and its association rows and to leave
  its tracks. The handler leaves that to the \<^verbatim>\<open>ON DELETE CASCADE\<close> clauses, which act only
  with \<open>foreign_keys\<close> on, and nothing turns it on. The example store is one that
  \<^verbatim>\<open>InitDB\<close> opened from a plain file name. Record 5 carries tracks 1 and 2, and record 6
  is in the cart of user 2. Deleting record 5 is
  answered with success and removes the record, and both association rows of record 5 are
  still there afterwards. Deleting record 6 is answered with success, and the cart row of
  user 2 for record 6 is still there afterwards; the listing of that cart then shows the
  row without record detail. The tracks stay in both cases.
\<close>

theorem delete_record_leaves_links_and_cart_rows:
  "\<not> foreign_keys example_store
   \<and> record_exists example_store 5
   \<and> fst (DeleteRecordHandler example_store 5) = Inr ''Record deleted successfully''
   \<and> \<not> record_exists (snd (DeleteRecordHandler example_store 5)) 5
   \<and> record_tracks (snd (DeleteRecordHandler example_store 5)) = [(5, 1), (5, 2)]
   \<and> map trk_id (tracks (snd (DeleteRecordHandler example_store 5))) = [1, 2]
   \<and> record_exists example_store 6
   \<and> fst (DeleteRecordHandler example_store 6) = Inr ''Record deleted successfully''
   \<and> \<not> record_exists (snd (DeleteRecordHandler example_store 6)) 6
   \<and> cart_items (snd (DeleteRecordHandler example_store 6))
       = [\<lparr>cart_user_id = 2, cart_record_id = 6, cart_quantity = INTEGER 1\<rparr>]
   \<and> GetCartHandler (snd (DeleteRecordHandler example_store 6)) 2
       = (Inr [\<lparr>CartItem_UserID = 2, CartItem_RecordID = 6, CartItem_Quantity = 1,
                CartItem_Record = None\<rparr>], [])"
proof -
  define D where "D = example_store\<lparr>records := [example_record 5 ''Live Set'' 0]\<rparr>"
  have d5: "DeleteRecordHandler example_store 5
              = (Inr ''Record deleted successfully'',
                 example_store\<lparr>records := [example_record 6 ''Studio'' 3]\<rparr>)"
    by (simp add: DeleteRecordHandler_def delete_record_def ex_defs)
  have d6: "DeleteRecordHandler example_store 6 = (Inr ''Record deleted successfully'', D)"
    by (simp add: DeleteRecordHandler_def delete_record_def ex_defs D_def)
  have rows: "select_cart_items D 2
                = [\<lparr>cart_user_id = 2, cart_record_id = 6, cart_quantity = INTEGER 1\<rparr>]"
    by (simp add: select_cart_items_def example_store_def D_def)
  have gone: "\<not> record_exists D 6"
    by (simp add: D_def record_exists_def example_record_def)
  have "\<forall>c \<in> set (select_cart_items D 2). \<not> record_exists D (cart_record_id c)"
    unfolding rows using gone by simp
  from cart_all_orphans [OF this] have cart: "GetCartHandler D 2
       = (Inr [\<lparr>CartItem_UserID = 2, CartItem_RecordID = 6, CartItem_Quantity = 1,
                CartItem_Record = None\<rparr>], [])"
    by (simp add: rows scan_cart_items_Cons scan_cart_errors_def scan_cart_item_def)
  have rest: "cart_items D = [\<lparr>cart_user_id = 2, cart_record_id = 6, cart_quantity = INTEGER 1\<rparr>]"
    by (simp add: D_def example_store_def)
  show ?thesis
    unfolding d5 d6 using cart gone rest by (simp add: ex_defs)
qed

text \<open>
  The same two requests on a connection that has \<open>foreign_keys\<close> on remove the
  association rows and the cart row, as the comments of \<^verbatim>\<open>createTables\<close> and of
  \<^verbatim>\<open>DeleteRecordHandler\<close> say.
\<close>

lemma delete_record_on_enforcing_store:
  "record_tracks (snd (DeleteRecordHandler enforcing_store 5)) = []
   \<and> map trk_id (tracks (snd (DeleteRecordHandler enforcing_store 5))) = [1, 2]
   \<and> cart_items (snd (DeleteRecordHandler enforcing_store 6)) = []
   \<and> map trk_name (tracks (delete_musician enforcing_store 1)) = [''Intro'']
   \<and> map trk_name (tracks (delete_ensemble enforcing_store 1)) = [''Solo'']"
proof -
  have h: "foreign_keys enforcing_store" "record_exists enforcing_store 5"
    "record_exists enforcing_store 6"
    "1 \<in> set (map mus_id (musicians enforcing_store))"
    "1 \<in> set (map ens_id (ensembles enforcing_store))"
    by (simp_all add: enforcing_store_def ex_defs)
  show ?thesis
    using delete_record_with_foreign_keys [OF h(1,2)] delete_record_with_foreign_keys [OF h(1,3)]
      delete_musician_tracks [OF h(1,4)] delete_ensemble_tracks [OF h(1,5)]
    by (simp add: enforcing_store_def example_store_def)
qed

section \<open>Properties of the admin writes\<close>

text \<open>
  Create-musician ends every request that it answers with an error by rolling the
  transaction back, if it began one, and leaves the committed database as it was.
\<close>

lemma musician_error:
  assumes "isl (response (AddMusicianHandler fault d req))"
  shows "store (AddMusicianHandler fault d req) = d
       \<and> (tx (AddMusicianHandler fault d req) = Rolled_back
          \<or> tx (AddMusicianHandler fault d req) = No_transaction)"
  using assms
  by (auto simp: AddMusicianHandler_def early_return_def
      split: if_splits sum.splits prod.splits option.splits)

text \<open>
  Create-ensemble does the same on every error but one: when the name is already taken,
  line 1028 sets \<^verbatim>\<open>err\<close> to \<^verbatim>\<open>nil\<close> before the \<^verbatim>\<open>return\<close>, the deferred function sees no
  error, and the transaction is neither rolled back nor committed.
\<close>

lemma ensemble_error:
  assumes "isl (response (AddEnsembleHandler fault d req))"
    and "response (AddEnsembleHandler fault d req)
           \<noteq> Inl (StatusConflict ''Ensemble name already exists'')"
  shows "store (AddEnsembleHandler fault d req) = d
       \<and> (tx (AddEnsembleHandler fault d req) = Rolled_back
          \<or> tx (AddEnsembleHandler fault d req) = No_transaction)"
  using assms
  by (auto simp: AddEnsembleHandler_def early_return_def
      split: if_splits sum.splits prod.splits option.splits)

lemma taken_name_leaves_open:
  assumes "AddEnsembleRequest_Name req \<noteq> []" "\<not> fault Begin" "\<not> fault Exec_first_insert"
    "AddEnsembleRequest_Name req \<in> set (map ens_name (ensembles d))"
  shows "AddEnsembleHandler fault d req
           = \<lparr>response = Inl (StatusConflict ''Ensemble name already exists''),
              store = d, tx = Left_open d, logged = []\<rparr>"
  using assms
  by (simp add: AddEnsembleHandler_def early_return_def exec_def insert_ensemble_def)

text \<open>
  Create-record declares a second \<^verbatim>\<open>err\<close> at line 1224. A failure of \<^verbatim>\<open>Prepare\<close> or of a
  link insert is stored in that one, the deferred function reads the first, and the
  transaction, which holds the new record by then, is left open.
\<close>

lemma record_prepare_failure:
  assumes "AddRecordRequest_Title req \<noteq> []" "0 \<le> AddRecordRequest_Stock req"
    "AddRecordRequest_TrackIDs req \<noteq> []"
    "\<not> fault Begin" "\<not> fault Exec_first_insert" "\<not> fault LastInsertId" "fault Prepare"
  shows "response (AddRecordHandler fault d req)
           = Inl (StatusInternalServerError ''Failed to add record tracks'')
       \<and> store (AddRecordHandler fault d req) = d
       \<and> (\<exists>w i. insert_record d req = Inr (w, i) \<and> tx (AddRecordHandler fault d req) = Left_open w)"
  using assms
  by (simp add: AddRecordHandler_def early_return_def exec_def insert_record_def Let_def)

text \<open>
  One failing statement is not treated as a failure at all: a link insert that fails on
  the primary key of \<^verbatim>\<open>record_tracks\<close>. With the track list \<open>[1, 1]\<close> the second link
  insert fails on it; the handler logs the duplicate, goes on, and commits the record and
  the first link (lines 1243-1248).
\<close>

lemma duplicate_link_is_skipped:
  "AddRecordHandler no_fault example_store (example_new_record [1, 1])
     = \<lparr>response = Inr 7,
        store = example_store\<lparr>records := records example_store @
                   [\<lparr>rec_id = 7, rec_title = ''Encore'', rec_label = ''EMI'',
                     rec_wholesale_address = ''Abbey Road 3'', rec_wholesale_price = 8,
                     rec_retail_price = 12, rec_release_date = ''2025-01-15'',
                     rec_sold_last_year = 0, rec_sold_current_year = 0, rec_stock = 4\<rparr>],
                 seq_records := 7, record_tracks := [(5, 1), (5, 2), (7, 1)]\<rparr>,
        tx = Committed, logged = [Warning_duplicate_track_skipping 1 7]\<rparr>"
  by (simp add: AddRecordHandler_def example_new_record_def no_fault_def
        exec_def insert_record_def insert_record_track_def next_id_def early_return_def
        example_store_def example_record_def)

lemma ex_musician_fault:
  "AddMusicianHandler (fault_at (Exec_insert_track 2)) example_store example_musician
     = \<lparr>response = Inl (StatusInternalServerError ''Failed to add musician's tracks''),
        store = example_store, tx = Rolled_back, logged = [Skipping_track_with_invalid_data [] 10]\<rparr>"
  by (simp add: AddMusicianHandler_def example_musician_def example_tracks_def fault_at_def
        exec_def insert_musician_def insert_track_def next_id_def early_return_def
        example_store_def)

lemma ex_record_fault:
  "AddRecordHandler (fault_at (Exec_insert_link 0)) example_store (example_new_record [1])
     = \<lparr>response = Inl (StatusInternalServerError ''Failed to link record tracks''),
        store = example_store,
        tx = Left_open
               (example_store\<lparr>records := records example_store @
                   [\<lparr>rec_id = 7, rec_title = ''Encore'', rec_label = ''EMI'',
                     rec_wholesale_address = ''Abbey Road 3'', rec_wholesale_price = 8,
                     rec_retail_price = 12, rec_release_date = ''2025-01-15'',
                     rec_sold_last_year = 0, rec_sold_current_year = 0, rec_stock = 4\<rparr>],
                 seq_records := 7\<rparr>),
        logged = []\<rparr>"
  by (simp add: AddRecordHandler_def example_new_record_def fault_at_def Let_def
        exec_def insert_record_def next_id_def early_return_def example_store_def
        example_record_def)

text \<open>
  C6. A statement that fails in a multi-statement admin write is to roll the request
  back, a uniqueness conflict on the first insert included. Two returns do not. The
  example store holds an ensemble named ``Quartet A''. A create-ensemble request
  with that name, on an engine that works, is answered with the conflict error; the
  committed database is unchanged, and the transaction is neither rolled back nor
  committed: it stays open and keeps the write lock of the database. A create-record
  request whose first link insert fails is answered with an error and leaves its
  transaction open as well, with the new record 7 in it. A create-musician request
  whose track insert fails is rolled back. A create-ensemble request with a name that is
  free, made while the lock is held, fails in its first insert.
\<close>

theorem ensemble_conflict_leaves_transaction_open:
  "AddEnsembleHandler no_fault example_store (example_ensemble ''Quartet A'')
     = \<lparr>response = Inl (StatusConflict ''Ensemble name already exists''),
        store = example_store, tx = Left_open example_store, logged = []\<rparr>
   \<and> tx (AddEnsembleHandler no_fault example_store (example_ensemble ''Quartet A'')) \<noteq> Rolled_back
   \<and> holds_write_lock (AddEnsembleHandler no_fault example_store (example_ensemble ''Quartet A''))
   \<and> response (AddRecordHandler (fault_at (Exec_insert_link 0)) example_store (example_new_record [1]))
       = Inl (StatusInternalServerError ''Failed to link record tracks'')
   \<and> tx (AddRecordHandler (fault_at (Exec_insert_link 0)) example_store (example_new_record [1]))
       \<noteq> Rolled_back
   \<and> holds_write_lock
       (AddRecordHandler (fault_at (Exec_insert_link 0)) example_store (example_new_record [1]))
   \<and> tx (AddMusicianHandler (fault_at (Exec_insert_track 2)) example_store example_musician)
       = Rolled_back
   \<and> \<not> holds_write_lock
       (AddMusicianHandler (fault_at (Exec_insert_track 2)) example_store example_musician)
   \<and> response (AddEnsembleHandler (fault_at Exec_first_insert) example_store
                  (example_ensemble ''Trio B''))
       = Inl (StatusInternalServerError ''Failed to add ensemble'')"
proof -
  have c: "AddEnsembleHandler no_fault example_store (example_ensemble ''Quartet A'')
     = \<lparr>response = Inl (StatusConflict ''Ensemble name already exists''),
        store = example_store, tx = Left_open example_store, logged = []\<rparr>"
    by (rule taken_name_leaves_open)
       (simp_all add: example_ensemble_def no_fault_def example_store_def)
  have l: "response (AddEnsembleHandler (fault_at Exec_first_insert) example_store
                      (example_ensemble ''Trio B''))
             = Inl (StatusInternalServerError ''Failed to add ensemble'')"
    by (simp add: AddEnsembleHandler_def example_ensemble_def fault_at_def exec_def
          early_return_def)
  show ?thesis
    unfolding c ex_record_fault ex_musician_fault l by (simp add: holds_write_lock_def)
qed

section \<open>Track ownership\<close>

lemma insert_tracks_tracks:
  assumes "insert_tracks fault m e i reqs w = (err, w', l)"
  shows "\<exists>new. tracks w' = tracks w @ new
           \<and> (\<forall>t \<in> set new. trk_musician_id t = m \<and> trk_ensemble_id t = e)"
  using assms
proof (induction reqs arbitrary: i w err w' l)
  case Nil
  then show ?case by simp
next
  case (Cons t rest)
  show ?case
  proof (cases "AddTrackRequest_Name t = [] \<or> AddTrackRequest_Duration t \<le> 0")
    case True
    with Cons.prems obtain l' where "insert_tracks fault m e (Suc i) rest w = (err, w', l')"
      by (auto split: prod.splits)
    from Cons.IH [OF this] show ?thesis .
  next
    case False
    show ?thesis
    proof (cases "exec fault (Exec_insert_track i)
                    (insert_track w (AddTrackRequest_Name t) (AddTrackRequest_Duration t) m e)")
      case (Inl x)
      with False Cons.prems have "w' = w" by auto
      then show ?thesis by simp
    next
      case (Inr w1)
      with False Cons.prems have rest: "insert_tracks fault m e (Suc i) rest w1 = (err, w', l)"
        by auto
      from Inr obtain row where w1: "tracks w1 = tracks w @ [row]"
        and row: "trk_musician_id row = m" "trk_ensemble_id row = e"
        by (auto simp: exec_def insert_track_def Let_def split: if_splits)
      from Cons.IH [OF rest] obtain new where new: "tracks w' = tracks w1 @ new"
        "\<forall>t \<in> set new. trk_musician_id t = m \<and> trk_ensemble_id t = e" by blast
      have "tracks w' = tracks w @ (row # new)" by (simp add: new w1)
      moreover have "\<forall>t \<in> set (row # new). trk_musician_id t = m \<and> trk_ensemble_id t = e"
        using row new(2) by simp
      ultimately show ?thesis by blast
    qed
  qed
qed

lemma insert_musician_tracks:
  "insert_musician d f l r e = Inr (w, i) \<Longrightarrow> tracks w = tracks d"
  by (auto simp: insert_musician_def Let_def split: if_splits)

lemma insert_ensemble_tracks:
  "insert_ensemble d n t = Inr (w, i) \<Longrightarrow> tracks w = tracks d"
  by (auto simp: insert_ensemble_def Let_def split: if_splits)

lemma musician_store:
  "store (AddMusicianHandler fault d req) = d
   \<or> (\<exists>w1 i e l. insert_musician d (AddMusicianRequest_FirstName req)
          (AddMusicianRequest_LastName req) (AddMusicianRequest_Role req)
          (AddMusicianRequest_EnsembleID req) = Inr (w1, i)
        \<and> insert_tracks fault (Some i) None 0 (AddMusicianRequest_Tracks req) w1
            = (e, store (AddMusicianHandler fault d req), l))"
  by (auto simp: AddMusicianHandler_def early_return_def exec_def
      split: if_splits sum.splits prod.splits option.splits)

lemma ensemble_store:
  "store (AddEnsembleHandler fault d req) = d
   \<or> (\<exists>w1 i e l. insert_ensemble d (AddEnsembleRequest_Name req) (AddEnsembleRequest_Type req)
          = Inr (w1, i)
        \<and> insert_tracks fault None (Some i) 0 (AddEnsembleRequest_Tracks req) w1
            = (e, store (AddEnsembleHandler fault d req), l))"
  by (auto simp: AddEnsembleHandler_def early_return_def exec_def
      split: if_splits sum.splits prod.splits option.splits)

lemma musician_new_tracks:
  "\<exists>new. tracks (store (AddMusicianHandler fault d req)) = tracks d @ new
      \<and> (\<forall>t \<in> set new. trk_musician_id t \<noteq> None \<and> trk_ensemble_id t = None)"
proof -
  from musician_store [of fault d req] show ?thesis
  proof
    assume "store (AddMusicianHandler fault d req) = d"
    then have "tracks (store (AddMusicianHandler fault d req)) = tracks d @ []" by simp
    then show ?thesis by fastforce
  next
    assume "\<exists>w1 i e l. insert_musician d (AddMusicianRequest_FirstName req)
          (AddMusicianRequest_LastName req) (AddMusicianRequest_Role req)
          (AddMusicianRequest_EnsembleID req) = Inr (w1, i)
        \<and> insert_tracks fault (Some i) None 0 (AddMusicianRequest_Tracks req) w1
            = (e, store (AddMusicianHandler fault d req), l)"
    then obtain w1 i e l where a: "insert_musician d (AddMusicianRequest_FirstName req)
          (AddMusicianRequest_LastName req) (AddMusicianRequest_Role req)
          (AddMusicianRequest_EnsembleID req) = Inr (w1, i)"
      and b: "insert_tracks fault (Some i) None 0 (AddMusicianRequest_Tracks req) w1
            = (e, store (AddMusicianHandler fault d req), l)" by blast
    from insert_tracks_tracks [OF b] insert_musician_tracks [OF a]
    show ?thesis by auto
  qed
qed

lemma ensemble_new_tracks:
  "\<exists>new. tracks (store (AddEnsembleHandler fault d req)) = tracks d @ new
      \<and> (\<forall>t \<in> set new. trk_musician_id t = None \<and> trk_ensemble_id t \<noteq> None)"
proof -
  from ensemble_store [of fault d req] show ?thesis
  proof
    assume "store (AddEnsembleHandler fault d req) = d"
    then have "tracks (store (AddEnsembleHandler fault d req)) = tracks d @ []" by simp
    then show ?thesis by fastforce
  next
    assume "\<exists>w1 i e l. insert_ensemble d (AddEnsembleRequest_Name req) (AddEnsembleRequest_Type req)
          = Inr (w1, i)
        \<and> insert_tracks fault None (Some i) 0 (AddEnsembleRequest_Tracks req) w1
            = (e, store (AddEnsembleHandler fault d req), l)"
    then obtain w1 i e l where a: "insert_ensemble d (AddEnsembleRequest_Name req)
          (AddEnsembleRequest_Type req) = Inr (w1, i)"
      and b: "insert_tracks fault None (Some i) 0 (AddEnsembleRequest_Tracks req) w1
            = (e, store (AddEnsembleHandler fault d req), l)" by blast
    from insert_tracks_tracks [OF b] insert_ensemble_tracks [OF a]
    show ?thesis by auto
  qed
qed

lemma check_constraint:
  assumes "insert_track w n dur m e = Inr w'" "list_all track_owner_ok (tracks w)"
  shows "list_all track_owner_ok (tracks w')"
  using assms
  by (auto simp: insert_track_def Let_def track_owner_ok_def split: if_splits)

lemma link_tracks_tracks:
  assumes "link_tracks fault d r i ids w = (e, w', l)"
  shows "tracks w' = tracks w"
  using assms
proof (induction ids arbitrary: i w e w' l)
  case Nil
  then show ?case by simp
next
  case (Cons t rest)
  show ?case
  proof (cases "fault (QueryRow_track_exists i) \<or> t \<notin> set (map trk_id (tracks d))")
    case True
    with Cons.prems obtain l' where "link_tracks fault d r (Suc i) rest w = (e, w', l')"
      by (auto split: prod.splits)
    from Cons.IH [OF this] show ?thesis .
  next
    case False
    show ?thesis
    proof (cases "exec fault (Exec_insert_link i) (insert_record_track w r t)")
      case (Inl x)
      show ?thesis
      proof (cases "x = UNIQUE_constraint_failed")
        case True
        with Inl False Cons.prems obtain l' where
          "link_tracks fault d r (Suc i) rest w = (e, w', l')"
          by (auto split: prod.splits)
        from Cons.IH [OF this] show ?thesis .
      next
        case other: False
        with Inl False Cons.prems show ?thesis by auto
      qed
    next
      case (Inr w1)
      with False Cons.prems have rest: "link_tracks fault d r (Suc i) rest w1 = (e, w', l)"
        by auto
      from Inr have "tracks w1 = tracks w"
        by (auto simp: exec_def insert_record_track_def split: if_splits)
      with Cons.IH [OF rest] show ?thesis by simp
    qed
  qed
qed

lemma record_handler_tracks: "tracks (store (AddRecordHandler fault d req)) = tracks d"
proof -
  have "store (AddRecordHandler fault d req) = d
      \<or> (\<exists>w1 i e l. insert_record d req = Inr (w1, i)
            \<and> link_tracks fault d i 0 (AddRecordRequest_TrackIDs req) w1
                = (e, store (AddRecordHandler fault d req), l))"
    by (auto simp: AddRecordHandler_def early_return_def exec_def
        split: if_splits sum.splits prod.splits option.splits)
  then show ?thesis
  proof
    assume "store (AddRecordHandler fault d req) = d"
    then show ?thesis by simp
  next
    assume "\<exists>w1 i e l. insert_record d req = Inr (w1, i)
            \<and> link_tracks fault d i 0 (AddRecordRequest_TrackIDs req) w1
                = (e, store (AddRecordHandler fault d req), l)"
    then obtain w1 i e l where a: "insert_record d req = Inr (w1, i)"
      and b: "link_tracks fault d i 0 (AddRecordRequest_TrackIDs req) w1
                = (e, store (AddRecordHandler fault d req), l)" by blast
    from a have "tracks w1 = tracks d" by (auto simp: insert_record_def Let_def)
    with link_tracks_tracks [OF b] show ?thesis by simp
  qed
qed

lemma delete_handler_tracks: "tracks (snd (DeleteRecordHandler d r)) = tracks d"
  by (simp add: DeleteRecordHandler_def delete_record_def)

lemma delete_owner_keeps_invariant:
  assumes "list_all track_owner_ok (tracks d)"
  shows "list_all track_owner_ok (tracks (delete_musician d i))"
    and "list_all track_owner_ok (tracks (delete_ensemble d i))"
  using assms
  by (auto simp: delete_musician_def delete_ensemble_def delete_tracks_where_def list_all_iff)

lemma aggregated_owner:
  assumes "track_owner_ok t"
  shows "Track_MusicianID (scan_track (left_join d t)) = trk_musician_id t
       \<and> Track_EnsembleID (scan_track (left_join d t)) = trk_ensemble_id t
       \<and> (Track_MusicianID (scan_track (left_join d t)) = None
            \<longleftrightarrow> Track_EnsembleID (scan_track (left_join d t)) \<noteq> None)
       \<and> (Track_MusicianName (scan_track (left_join d t)) = []
          \<or> Track_EnsembleName (scan_track (left_join d t)) = [])"
proof -
  have j: "j_musician_id (left_join d t) = trk_musician_id t"
    "j_ensemble_id (left_join d t) = trk_ensemble_id t"
    by (simp_all add: left_join_def Let_def)
  from scan_track_owner [of "left_join d t"] assms show ?thesis
    by (auto simp: j track_owner_ok_def)
qed

text \<open>
  C7. Exactly one owner. The fresh schema holds no track, and \<^verbatim>\<open>tracks\<close> admits a new row
  only if exactly one of its two owner columns is set. Whatever fails on the way,
  create-musician adds only tracks with a musician and no ensemble, create-ensemble only
  tracks with an ensemble and no musician, and neither touches the tracks that were there.
  So if every stored track has exactly one owner, this still holds after create-musician,
  create-ensemble, create-record, delete-record and the deletion of a musician or of an
  ensemble. For a track with exactly one owner, the aggregated track carries the same two
  references, exactly one of them set, and at most one of the two display names.
\<close>

theorem track_has_exactly_one_owner:
  "list_all track_owner_ok (tracks createTables)
   \<and> (\<forall>w'. insert_track w n dur m e = Inr w' \<longrightarrow> list_all track_owner_ok (tracks w)
          \<longrightarrow> list_all track_owner_ok (tracks w'))
   \<and> (\<exists>new. tracks (store (AddMusicianHandler fault d mreq)) = tracks d @ new
         \<and> (\<forall>t \<in> set new. trk_musician_id t \<noteq> None \<and> trk_ensemble_id t = None))
   \<and> (\<exists>new. tracks (store (AddEnsembleHandler fault d ereq)) = tracks d @ new
         \<and> (\<forall>t \<in> set new. trk_musician_id t = None \<and> trk_ensemble_id t \<noteq> None))
   \<and> (list_all track_owner_ok (tracks d) \<longrightarrow>
         list_all track_owner_ok (tracks (store (AddMusicianHandler fault d mreq)))
       \<and> list_all track_owner_ok (tracks (store (AddEnsembleHandler fault d ereq)))
       \<and> list_all track_owner_ok (tracks (store (AddRecordHandler fault d rreq)))
       \<and> list_all track_owner_ok (tracks (snd (DeleteRecordHandler d r)))
       \<and> list_all track_owner_ok (tracks (delete_musician d i))
       \<and> list_all track_owner_ok (tracks (delete_ensemble d i)))
   \<and> (track_owner_ok t \<longrightarrow>
         Track_MusicianID (scan_track (left_join d t)) = trk_musician_id t
       \<and> Track_EnsembleID (scan_track (left_join d t)) = trk_ensemble_id t
       \<and> (Track_MusicianID (scan_track (left_join d t)) = None
            \<longleftrightarrow> Track_EnsembleID (scan_track (left_join d t)) \<noteq> None)
       \<and> (Track_MusicianName (scan_track (left_join d t)) = []
          \<or> Track_EnsembleName (scan_track (left_join d t)) = []))"
proof -
  have init: "list_all track_owner_ok (tracks createTables)"
    by (simp add: createTables_def)
  from musician_new_tracks [of fault d mreq] obtain mnew where
    mnew: "tracks (store (AddMusicianHandler fault d mreq)) = tracks d @ mnew"
      "\<forall>t \<in> set mnew. trk_musician_id t \<noteq> None \<and> trk_ensemble_id t = None" by blast
  from ensemble_new_tracks [of fault d ereq] obtain enew where
    enew: "tracks (store (AddEnsembleHandler fault d ereq)) = tracks d @ enew"
      "\<forall>t \<in> set enew. trk_musician_id t = None \<and> trk_ensemble_id t \<noteq> None" by blast
  have handlers: "list_all track_owner_ok (tracks (store (AddMusicianHandler fault d mreq)))
       \<and> list_all track_owner_ok (tracks (store (AddEnsembleHandler fault d ereq)))
       \<and> list_all track_owner_ok (tracks (store (AddRecordHandler fault d rreq)))
       \<and> list_all track_owner_ok (tracks (snd (DeleteRecordHandler d r)))
       \<and> list_all track_owner_ok (tracks (delete_musician d i))
       \<and> list_all track_owner_ok (tracks (delete_ensemble d i))"
    if inv: "list_all track_owner_ok (tracks d)"
    using inv mnew enew delete_owner_keeps_invariant [OF inv, of i]
    by (auto simp: record_handler_tracks delete_handler_tracks track_owner_ok_def list_all_iff)
  show ?thesis
    using init check_constraint [of w n dur m e] mnew enew handlers aggregated_owner [of t d]
    by blast
qed

theorem track_has_exactly_one_owner_witness:
  "list_all track_owner_ok (tracks example_store)
   \<and> map (\<lambda>t. (trk_id t, trk_name t, trk_musician_id t, trk_ensemble_id t))
       (tracks (store (AddMusicianHandler no_fault example_store example_musician)))
       = [(1, ''Intro'', None, Some 1), (2, ''Solo'', Some 1, None),
          (3, ''Opening'', Some 2, None), (4, ''Finale'', Some 2, None)]
   \<and> list_all track_owner_ok (tracks (store (AddMusicianHandler no_fault example_store example_musician)))
   \<and> insert_track example_store ''Both'' 60 (Some 1) (Some 1) = Inl CHECK_constraint_failed
   \<and> insert_track example_store ''Neither'' 60 None None = Inl CHECK_constraint_failed
   \<and> (\<exists>w'. insert_track example_store ''Coda'' 60 None (Some 1) = Inr w'
          \<and> list_all track_owner_ok (tracks w'))
   \<and> Track_MusicianID (scan_track (left_join example_store nameless_track)) = Some 1
   \<and> Track_EnsembleID (scan_track (left_join example_store nameless_track)) = None"
proof -
  have inv: "list_all track_owner_ok (tracks example_store)"
    by (simp add: example_store_def track_owner_ok_def)
  have own: "track_owner_ok nameless_track"
    by (simp add: nameless_track_def track_owner_ok_def)
  have out: "map (\<lambda>t. (trk_id t, trk_name t, trk_musician_id t, trk_ensemble_id t))
       (tracks (store (AddMusicianHandler no_fault example_store example_musician)))
       = [(1, ''Intro'', None, Some 1), (2, ''Solo'', Some 1, None),
          (3, ''Opening'', Some 2, None), (4, ''Finale'', Some 2, None)]"
    by (simp add: AddMusicianHandler_def example_musician_def example_tracks_def no_fault_def
          exec_def insert_musician_def insert_track_def next_id_def Let_def example_store_def)
  have chk: "insert_track example_store ''Both'' 60 (Some 1) (Some 1) = Inl CHECK_constraint_failed"
    "insert_track example_store ''Neither'' 60 None None = Inl CHECK_constraint_failed"
    by (simp_all add: insert_track_def)
  obtain w' where w': "insert_track example_store ''Coda'' 60 None (Some 1) = Inr w'"
    by (simp add: insert_track_def Let_def example_store_def)
  note T = track_has_exactly_one_owner [of example_store "''Coda''" 60 None "Some 1" no_fault
        example_store example_musician "example_ensemble ''Trio B''" "example_new_record [1]"
        5 1 nameless_track]
  have a: "list_all track_owner_ok
             (tracks (store (AddMusicianHandler no_fault example_store example_musician)))"
    using T inv by blast
  have b: "list_all track_owner_ok (tracks w')"
    using T inv w' by blast
  have c: "Track_MusicianID (scan_track (left_join example_store nameless_track))
             = trk_musician_id nameless_track
         \<and> Track_EnsembleID (scan_track (left_join example_store nameless_track))
             = trk_ensemble_id nameless_track"
    using T own by blast
  have d: "trk_musician_id nameless_track = Some 1" "trk_ensemble_id nameless_track = None"
    by (simp_all add: nameless_track_def)
  show ?thesis
    using inv out chk w' a b c d by simp
qed

end
